theory Spec2Isabelle
  imports Main "HOL-Library.Word"
begin

unbundle bit_operations_syntax

section \<open>Machine integers and constants\<close>

type_synonym u8 = "8 word"
type_synonym u16 = "16 word"
type_synonym u32 = "32 word"
type_synonym u64 = "64 word"

text \<open>
  The headers that declare the following constants (\<open>asm/processor.h\<close>, \<open>asm/svm.h\<close>,
  \<open>asm/paging.h\<close>, \<open>jailhouse/cell-config.h\<close>) are not among the source files; the values
  are the architectural ones of the AMD64 manual and of the hypervisor's configuration
  format. \<open>MTRR_DEFTYPE\<close>, \<open>PAT_RESET_VALUE\<close> and \<open>SVM_CR0_ALLOWED_BITS\<close> are defined in
  \<open>svm.c\<close> itself.
\<close>

definition EFER_LME :: u64 where "EFER_LME = 0x100"
definition EFER_LMA :: u64 where "EFER_LMA = 0x400"
definition EFER_NXE :: u64 where "EFER_NXE = 0x800"
definition EFER_SVME :: u64 where "EFER_SVME = 0x1000"

definition X86_CR0_ET :: u64 where "X86_CR0_ET = 0x10"
definition X86_CR0_WP :: u64 where "X86_CR0_WP = 0x10000"
definition X86_CR0_NW :: u64 where "X86_CR0_NW = 0x20000000"
definition X86_CR0_CD :: u64 where "X86_CR0_CD = 0x40000000"
definition X86_CR0_PG :: u64 where "X86_CR0_PG = 0x80000000"
definition X86_CR4_PAE :: u64 where "X86_CR4_PAE = 0x20"
definition X86_XCR0_FP :: u64 where "X86_XCR0_FP = 0x1"

definition SVM_CR0_ALLOWED_BITS :: u64 where
  "SVM_CR0_ALLOWED_BITS = NOT X86_CR0_NW"

definition MSR_IA32_PAT :: u32 where "MSR_IA32_PAT = 0x277"
definition MTRR_DEFTYPE :: u64 where "MTRR_DEFTYPE = 0x2ff"
definition MSR_X2APIC_BASE :: u64 where "MSR_X2APIC_BASE = 0x800"
definition MSR_X2APIC_END :: u64 where "MSR_X2APIC_END = 0x83f"
definition MSR_EFER :: u32 where "MSR_EFER = 0xc0000080"
definition MSR_GS_BASE :: u32 where "MSR_GS_BASE = 0xc0000101"
definition MSR_VM_HSAVE_PA :: u32 where "MSR_VM_HSAVE_PA = 0xc0010117"

definition PAT_RESET_VALUE :: u64 where "PAT_RESET_VALUE = 0x0007040600070406"

definition CLEAN_BITS_CRX :: u64 where "CLEAN_BITS_CRX = 0x20"

definition SVM_TLB_FLUSH_ALL :: u8 where "SVM_TLB_FLUSH_ALL = 0x01"
definition SVM_TLB_FLUSH_GUEST :: u8 where "SVM_TLB_FLUSH_GUEST = 0x03"

definition X86_INST_LEN_MOV_TO_CR :: u32 where "X86_INST_LEN_MOV_TO_CR = 3"
definition X86_INST_LEN_RDMSR :: u32 where "X86_INST_LEN_RDMSR = 2"
definition X86_INST_LEN_WRMSR :: u32 where "X86_INST_LEN_WRMSR = 2"
definition X86_INST_LEN_XSETBV :: u32 where "X86_INST_LEN_XSETBV = 3"

definition PAGE_SIZE :: u64 where "PAGE_SIZE = 0x1000"
definition PAGE_OFFS_MASK :: u64 where "PAGE_OFFS_MASK = 0xfff"
definition XAPIC_BASE :: u64 where "XAPIC_BASE = 0xfee00000"
definition APIC_BSP_PSEUDO_SIPI :: u32 where "APIC_BSP_PSEUDO_SIPI = 0x100"

definition PAGE_FLAG_PRESENT :: u64 where "PAGE_FLAG_PRESENT = 0x01"
definition PAGE_FLAG_RW :: u64 where "PAGE_FLAG_RW = 0x02"
definition PAGE_FLAG_US :: u64 where "PAGE_FLAG_US = 0x04"
definition PAGE_FLAG_NOEXECUTE :: u64 where "PAGE_FLAG_NOEXECUTE = 0x8000000000000000"

definition JAILHOUSE_MEM_READ :: u64 where "JAILHOUSE_MEM_READ = 0x0001"
definition JAILHOUSE_MEM_WRITE :: u64 where "JAILHOUSE_MEM_WRITE = 0x0002"
definition JAILHOUSE_MEM_EXECUTE :: u64 where "JAILHOUSE_MEM_EXECUTE = 0x0004"
definition JAILHOUSE_MEM_COMM_REGION :: u64 where "JAILHOUSE_MEM_COMM_REGION = 0x0010"

definition VMEXIT_INVALID :: u64 where "VMEXIT_INVALID = - 1"
definition VMEXIT_NMI :: u64 where "VMEXIT_NMI = 0x61"
definition VMEXIT_CR0_SEL_WRITE :: u64 where "VMEXIT_CR0_SEL_WRITE = 0x65"
definition VMEXIT_CPUID :: u64 where "VMEXIT_CPUID = 0x72"
definition VMEXIT_IOIO :: u64 where "VMEXIT_IOIO = 0x7b"
definition VMEXIT_MSR :: u64 where "VMEXIT_MSR = 0x7c"
definition VMEXIT_VMMCALL :: u64 where "VMEXIT_VMMCALL = 0x81"
definition VMEXIT_XSETBV :: u64 where "VMEXIT_XSETBV = 0x8d"
definition VMEXIT_NPF :: u64 where "VMEXIT_NPF = 0x400"

section \<open>Data model\<close>

text \<open>\<open>struct svm_segment\<close>: one segment register of the control block.\<close>

record svm_segment =
  selector :: u16
  access_rights :: u16
  limit :: u32
  base :: u64

text \<open>
  \<open>struct vmcb\<close>, the hardware control block: the fields that the exit handlers,
  the reset and the paging classification of \<open>svm.c\<close> read or write.
\<close>

record vmcb =
  iopm_base_pa :: u64
  tlb_control :: u8
  exitcode :: u64
  exitinfo1 :: u64
  exitinfo2 :: u64
  n_cr3 :: u64
  clean_bits :: u64
  es :: svm_segment
  cs :: svm_segment
  ss :: svm_segment
  ds :: svm_segment
  fs :: svm_segment
  gs :: svm_segment
  gdtr :: svm_segment
  ldtr :: svm_segment
  idtr :: svm_segment
  tr :: svm_segment
  efer :: u64
  cr4 :: u64
  cr3 :: u64
  cr0 :: u64
  dr7 :: u64
  rflags :: u64
  rip :: u64
  rsp :: u64
  star :: u64
  lstar :: u64
  cstar :: u64
  sfmask :: u64
  kerngsbase :: u64
  sysenter_cs :: u64
  sysenter_esp :: u64
  sysenter_eip :: u64
  g_pat :: u64

text \<open>
  \<open>struct registers\<close>, the guest's general-purpose register save area, in memory
  order (the order in which \<open>vcpu_deactivate_vmm\<close> pops it): index 0 is \<open>r15\<close> and
  index 15 is \<open>rax\<close>.
\<close>

record registers =
  r15 :: u64
  r14 :: u64
  r13 :: u64
  r12 :: u64
  r11 :: u64
  r10 :: u64
  r9 :: u64
  r8 :: u64
  rdi :: u64
  rsi :: u64
  rbp :: u64
  unused :: u64
  rbx :: u64
  rdx :: u64
  rcx :: u64
  rax :: u64

text \<open>The save area read as an array of sixteen \<open>unsigned long\<close>.\<close>

definition regs_as_array :: "registers \<Rightarrow> u64 list" where
  "regs_as_array g = [r15 g, r14 g, r13 g, r12 g, r11 g, r10 g, r9 g, r8 g,
     rdi g, rsi g, rbp g, unused g, rbx g, rdx g, rcx g, rax g]"

definition zero_registers :: registers where
  "zero_registers = \<lparr> r15 = 0, r14 = 0, r13 = 0, r12 = 0, r11 = 0, r10 = 0, r9 = 0,
     r8 = 0, rdi = 0, rsi = 0, rbp = 0, unused = 0, rbx = 0, rdx = 0, rcx = 0, rax = 0 \<rparr>"

text \<open>The statistics categories that index \<open>cpu_data->stats\<close>.\<close>

datatype cpu_stat =
    JAILHOUSE_CPU_STAT_VMEXITS_TOTAL
  | JAILHOUSE_CPU_STAT_VMEXITS_MMIO
  | JAILHOUSE_CPU_STAT_VMEXITS_MANAGEMENT
  | JAILHOUSE_CPU_STAT_VMEXITS_HYPERCALL
  | JAILHOUSE_CPU_STAT_VMEXITS_PIO
  | JAILHOUSE_CPU_STAT_VMEXITS_XAPIC
  | JAILHOUSE_CPU_STAT_VMEXITS_CR
  | JAILHOUSE_CPU_STAT_VMEXITS_MSR
  | JAILHOUSE_CPU_STAT_VMEXITS_CPUID
  | JAILHOUSE_CPU_STAT_VMEXITS_XSETBV

datatype svm_state = SVMOFF | SVMON

text \<open>
  The nested page table of a cell, seen through its terminal entries: the guest frame
  number (guest-physical address divided by the page size) is mapped to the entry of that
  page, the host-physical address of the page together with the flag bits of the entry.
\<close>

record npt_entry =
  host_page :: u64
  entry_flags :: u64

type_synonym paging_structures = "nat \<Rightarrow> npt_entry option"

text \<open>
  The part of \<open>struct cell\<close> that \<open>svm.c\<close> uses, with the host-physical addresses that
  \<open>paging_hvirt2phys\<close> gives for the I/O bitmap, the root of the nested page table and
  the communication page.
\<close>

record cell_svm =
  iopm_phys :: u64
  npt_root_phys :: u64
  comm_page_phys :: u64
  npt_structs :: paging_structures

text \<open>
  \<open>struct per_cpu\<close>: the control block, the exit counters, one per category, and the
  virtualization state of one CPU. The declaration of the structure (\<open>asm/percpu.h\<close>) is
  not among the source files; the counters are unsigned 32-bit integers, the width in
  which the driver receives them (\<open>stats_show\<close> stores each in an \<open>int\<close>).
  \<open>cpu_data_addr\<close> is the address of the structure, which the exit handler writes to the
  GS base.
\<close>

record per_cpu =
  cpu_data_addr :: u64
  stats :: "cpu_stat \<Rightarrow> u32"
  vmcb :: vmcb
  svm_state :: svm_state
  cell :: cell_svm

text \<open>
  One CPU as the handlers see it: its per-CPU data, the guest register save area, the
  model-specific registers of the processor, the global interrupt flag, the extended
  control register 0, and the feature flags that \<open>svm_check_features\<close> sets once.
\<close>

record machine =
  cpu_data :: per_cpu
  guest_regs :: registers
  msrs :: "u32 \<Rightarrow> u64"
  gif :: bool
  xcr0 :: u64
  has_assists :: bool
  has_flush_by_asid :: bool

definition read_msr :: "u32 \<Rightarrow> machine \<Rightarrow> u64" where
  "read_msr msr m = msrs m msr"

definition write_msr :: "u32 \<Rightarrow> u64 \<Rightarrow> machine \<Rightarrow> machine" where
  "write_msr msr val m = m\<lparr>msrs := (msrs m)(msr := val)\<rparr>"

text \<open>Update of the control block inside the machine.\<close>

definition upd_vmcb :: "(vmcb \<Rightarrow> vmcb) \<Rightarrow> machine \<Rightarrow> machine" where
  "upd_vmcb f m = m\<lparr>cpu_data := (cpu_data m)\<lparr>vmcb := f (vmcb (cpu_data m))\<rparr>\<rparr>"

definition the_vmcb :: "machine \<Rightarrow> vmcb" where
  "the_vmcb m = vmcb (cpu_data m)"

text \<open>\<open>cpu_data->stats[c]++\<close>.\<close>

definition stats_inc :: "cpu_stat \<Rightarrow> machine \<Rightarrow> machine" where
  "stats_inc c m =
     m\<lparr>cpu_data := (cpu_data m)\<lparr>stats := (stats (cpu_data m))(c := stats (cpu_data m) c + 1)\<rparr>\<rparr>"

section \<open>Enabling and disabling virtualization\<close>

text \<open>\<open>vcpu_exit\<close>: the \<open>stgi\<close> instruction sets the global interrupt flag.\<close>

definition vcpu_exit :: "machine \<Rightarrow> machine" where
  "vcpu_exit m =
     (if svm_state (cpu_data m) = SVMOFF then m
      else
        let m1 = m\<lparr>cpu_data := (cpu_data m)\<lparr>svm_state := SVMOFF\<rparr>\<rparr>;
            m2 = m1\<lparr>gif := True\<rparr>;
            efer0 = read_msr MSR_EFER m2;
            efer1 = efer0 AND NOT EFER_SVME;
            m3 = write_msr MSR_EFER efer1 m2
        in write_msr MSR_VM_HSAVE_PA 0 m3)"

section \<open>Helpers of the exit handlers\<close>

definition vcpu_tlb_flush :: "machine \<Rightarrow> machine" where
  "vcpu_tlb_flush m =
     (if has_flush_by_asid m
      then upd_vmcb (\<lambda>v. v\<lparr>tlb_control := SVM_TLB_FLUSH_GUEST\<rparr>) m
      else upd_vmcb (\<lambda>v. v\<lparr>tlb_control := SVM_TLB_FLUSH_ALL\<rparr>) m)"

definition vcpu_skip_emulated_instruction :: "u32 \<Rightarrow> machine \<Rightarrow> machine" where
  "vcpu_skip_emulated_instruction inst_len m =
     upd_vmcb (\<lambda>v. v\<lparr>rip := rip v + ucast inst_len\<rparr>) m"

definition update_efer :: "machine \<Rightarrow> machine" where
  "update_efer m =
     (let efer0 = efer (the_vmcb m) in
      if efer0 AND (EFER_LME OR EFER_LMA) \<noteq> EFER_LME then m
      else
        let efer1 = efer0 OR EFER_LMA;
            m1 = (if (efer (the_vmcb m) XOR efer1) AND EFER_LMA \<noteq> 0
                  then vcpu_tlb_flush m else m);
            m2 = upd_vmcb (\<lambda>v. v\<lparr>efer := efer1\<rparr>) m1
        in upd_vmcb (\<lambda>v. v\<lparr>clean_bits := clean_bits v AND NOT CLEAN_BITS_CRX\<rparr>) m2)"

section \<open>Guest paging mode\<close>

text \<open>The three page-table formats \<open>x86_64_paging\<close>, \<open>i386_paging\<close> and \<open>realmode_paging\<close>.\<close>

datatype paging_kind = x86_64_paging | i386_paging | realmode_paging

record guest_paging_structures =
  root_paging :: paging_kind
  root_table_gphys :: u64

text \<open>
  \<open>vcpu_get_guest_paging_structs\<close>: \<open>None\<close> is the return value \<open>false\<close> (unsupported
  paging mode), \<open>Some\<close> the filled-in structure with return value \<open>true\<close>.
\<close>

definition vcpu_get_guest_paging_structs :: "machine \<Rightarrow> guest_paging_structures option" where
  "vcpu_get_guest_paging_structs m =
     (let v = the_vmcb m in
      if efer v AND EFER_LMA \<noteq> 0 then
        Some \<lparr>root_paging = x86_64_paging,
              root_table_gphys = cr3 v AND 0x000ffffffffff000\<rparr>
      else if cr0 v AND X86_CR0_PG \<noteq> 0 \<and> \<not> (cr4 v AND X86_CR4_PAE \<noteq> 0) then
        Some \<lparr>root_paging = i386_paging,
              root_table_gphys = cr3 v AND 0xfffff000\<rparr>
      else if \<not> (cr0 v AND X86_CR0_PG \<noteq> 0) then
        Some \<lparr>root_paging = realmode_paging, root_table_gphys = 0xff000\<rparr>
      else None)"

section \<open>Decoding a move to a control register\<close>

text \<open>
  A pointer into the hypervisor's mapping of one guest page: \<open>window\<close> gives the bytes
  that the hypervisor reads through the mapping, by offset from the start of the mapped
  page, and \<open>pos\<close> is the offset the pointer stands at. Offsets below the page size are
  the bytes of the guest page; from the page size on they are whatever follows the mapping
  in the hypervisor's own address space, which is not the next page of the guest.
\<close>

record inst_ptr =
  window :: "nat \<Rightarrow> u8"
  pos :: nat

definition deref :: "inst_ptr \<Rightarrow> u8" where
  "deref p = window p (pos p)"

definition ptr_inc :: "inst_ptr \<Rightarrow> inst_ptr" where
  "ptr_inc p = p\<lparr>pos := Suc (pos p)\<rparr>"

text \<open>The mapping of guest pages: from the paging structures and the page-aligned guest
  address to the mapped window, \<open>None\<close> when the page cannot be mapped.\<close>

type_synonym page_mapper = "guest_paging_structures \<Rightarrow> u64 \<Rightarrow> (nat \<Rightarrow> u8) option"

text \<open>
  Modelled from the spec: \<open>vcpu_map_inst\<close> (declared in \<open>asm/vcpu.h\<close>) is not among the
  source files. It maps the guest page that holds the address \<open>pc\<close> and returns a pointer
  to the byte at \<open>pc\<close>, or \<open>NULL\<close> when the requested size is zero or the page cannot be
  mapped; the size is cut down to the number of bytes from \<open>pc\<close> to the end of that page.
  The sibling \<open>vcpu_get_inst_bytes\<close> treats the size in the same way.
\<close>

definition vcpu_map_inst ::
  "page_mapper \<Rightarrow> guest_paging_structures \<Rightarrow> u64 \<Rightarrow> u32 \<Rightarrow> inst_ptr option \<times> u32" where
  "vcpu_map_inst gp pg pc sz =
     (if sz = 0 then (None, sz)
      else case gp pg (pc AND NOT PAGE_OFFS_MASK) of
        None \<Rightarrow> (None, sz)
      | Some w \<Rightarrow>
          let bytes_avail = PAGE_SIZE - (pc AND PAGE_OFFS_MASK)
          in (Some \<lparr>window = w, pos = unat (pc AND PAGE_OFFS_MASK)\<rparr>,
              if bytes_avail < ucast sz then ucast bytes_avail else sz))"

text \<open>\<open>struct parse_context\<close>; the pointer \<open>inst\<close> is \<open>None\<close> when it is \<open>NULL\<close>.\<close>

record parse_context =
  remaining :: u32
  size_ctx :: u32
  cs_base :: u64
  inst :: "inst_ptr option"

text \<open>\<open>ctx_advance\<close> returns its result, the updated context and the updated \<open>*pc\<close>.\<close>

definition ctx_advance ::
  "page_mapper \<Rightarrow> parse_context \<Rightarrow> u64 \<Rightarrow> guest_paging_structures
     \<Rightarrow> bool \<times> parse_context \<times> u64" where
  "ctx_advance gp ctx pc pg =
     (if size_ctx ctx = 0 then
        let ctx1 = ctx\<lparr>size_ctx := remaining ctx\<rparr>;
            r = vcpu_map_inst gp pg (cs_base ctx1 + pc) (size_ctx ctx1);
            ctx2 = ctx1\<lparr>inst := fst r, size_ctx := snd r\<rparr>
        in if inst ctx2 = None then (False, ctx2, pc)
           else (True, ctx2\<lparr>remaining := remaining ctx2 - size_ctx ctx2\<rparr>,
                 pc + ucast (size_ctx ctx2))
      else (True, ctx, pc))"

text \<open>
  The loop of \<open>x86_parse_mov_to_cr\<close> over the expected opcode bytes: \<open>None\<close> is the jump
  to \<open>out\<close>. The pointer is never \<open>NULL\<close> inside the loop, because the loop is entered
  only after a successful \<open>ctx_advance\<close>; the model leaves the loop there.
\<close>

fun match_opcodes ::
  "page_mapper \<Rightarrow> guest_paging_structures \<Rightarrow> u8 list \<Rightarrow> parse_context \<Rightarrow> u64
     \<Rightarrow> (parse_context \<times> u64) option" where
  "match_opcodes gp pg [] ctx pc = Some (ctx, pc)"
| "match_opcodes gp pg (opc # ops) ctx pc =
     (case inst ctx of
        None \<Rightarrow> None
      | Some p \<Rightarrow>
          if deref p \<noteq> opc then None
          else (case ctx_advance gp ctx pc pg of
                  (False, _, _) \<Rightarrow> None
                | (True, ctx1, pc1) \<Rightarrow>
                    match_opcodes gp pg ops (ctx1\<lparr>inst := map_option ptr_inc (inst ctx1)\<rparr>) pc1))"

text \<open>
  \<open>x86_parse_mov_to_cr\<close>: \<open>None\<close> is the result \<open>false\<close>, \<open>Some g\<close> the result \<open>true\<close>
  with \<open>*gpr = g\<close>.
\<close>

definition x86_parse_mov_to_cr :: "page_mapper \<Rightarrow> machine \<Rightarrow> u64 \<Rightarrow> u8 \<Rightarrow> u64 option" where
  "x86_parse_mov_to_cr gp m pc reg =
     (let ctx0 = \<lparr>remaining = 2, size_ctx = 0, cs_base = 0, inst = None\<rparr> in
      case vcpu_get_guest_paging_structs m of
        None \<Rightarrow> None
      | Some pg \<Rightarrow>
          let ctx1 = ctx0\<lparr>cs_base := (if efer (the_vmcb m) AND EFER_LMA \<noteq> 0 then 0
                                       else base (cs (the_vmcb m)))\<rparr>
          in (case ctx_advance gp ctx1 pc pg of
                (False, _, _) \<Rightarrow> None
              | (True, ctx2, pc2) \<Rightarrow>
                  (case match_opcodes gp pg [0x0f, 0x22] ctx2 pc2 of
                     None \<Rightarrow> None
                   | Some (ctx3, pc3) \<Rightarrow>
                       (case ctx_advance gp ctx3 pc3 pg of
                          (False, _, _) \<Rightarrow> None
                        | (True, ctx4, pc4) \<Rightarrow>
                            (case inst ctx4 of
                               None \<Rightarrow> None
                             | Some p \<Rightarrow>
                                 (let modrm = deref p in
                                  if drop_bit 3 (modrm AND 0x38) \<noteq> reg then None
                                  else Some (ucast (modrm AND 0x7))))))))"

section \<open>Collaborators outside \<open>svm.c\<close>\<close>

text \<open>\<open>struct vcpu_execution_state\<close>, \<open>struct vcpu_pf_intercept\<close>, \<open>struct vcpu_io_intercept\<close>.\<close>

record vcpu_execution_state =
  x_efer :: u64
  x_rflags :: u64
  x_cs :: u16
  x_rip :: u64

record vcpu_pf_intercept =
  phys_addr :: u64
  is_write :: bool

record vcpu_io_intercept =
  port :: u16
  io_size :: u32
  io_in :: bool
  inst_len :: u32
  rep_or_str :: bool

text \<open>
  The functions that the exit handlers call and that live in other files of the
  hypervisor are parameters of the model. Each takes the machine and returns its result
  with the machine it leaves behind.
\<close>

record collaborators =
  guest_page :: page_mapper
  x86_handle_events :: "machine \<Rightarrow> u32 \<times> machine"
  iommu_check_pending_faults :: "machine \<Rightarrow> machine"
  vcpu_handle_hypercall :: "vcpu_execution_state \<Rightarrow> machine \<Rightarrow> machine"
  x2apic_handle_read :: "machine \<Rightarrow> machine"
  x2apic_handle_write :: "machine \<Rightarrow> bool \<times> machine"
  apic_mmio_access ::
    "u64 \<Rightarrow> guest_paging_structures \<Rightarrow> u32 \<Rightarrow> bool \<Rightarrow> machine \<Rightarrow> u32 \<times> machine"
  vcpu_handle_pt_violation :: "vcpu_pf_intercept \<Rightarrow> machine \<Rightarrow> bool \<times> machine"
  vcpu_handle_io_access :: "vcpu_io_intercept \<Rightarrow> machine \<Rightarrow> bool \<times> machine"
  cpuid_eax :: "u32 \<Rightarrow> u32"

section \<open>Emulation of control-register and MSR accesses\<close>

text \<open>
  The first part of \<open>svm_handle_cr\<close>, up to the end of the \<open>if (has_assists)\<close>
  statement: the number of the source register, from the exit information when the
  processor has decode assists and from the instruction bytes otherwise. \<open>None\<close> is the
  jump to \<open>out\<close> with \<open>ok = false\<close>.
\<close>

definition svm_cr_decode :: "collaborators \<Rightarrow> machine \<Rightarrow> u64 option" where
  "svm_cr_decode ext m =
     (if has_assists m then
        (if exitinfo1 (the_vmcb m) AND push_bit 63 1 = 0 then None
         else Some (exitinfo1 (the_vmcb m) AND 0x07))
      else x86_parse_mov_to_cr (guest_page ext) m (rip (the_vmcb m)) 0)"

text \<open>\<open>svm_handle_cr\<close>: the decoding above, then the emulation of the write to CR0.\<close>

definition svm_handle_cr :: "collaborators \<Rightarrow> machine \<Rightarrow> bool \<times> machine" where
  "svm_handle_cr ext m =
     (case svm_cr_decode ext m of
        None \<Rightarrow> (False, m)
      | Some reg \<Rightarrow>
          let val = (if reg = 4 then rsp (the_vmcb m)
                     else regs_as_array (guest_regs m) ! (15 - unat reg));
              m1 = vcpu_skip_emulated_instruction X86_INST_LEN_MOV_TO_CR m;
              bits = X86_CR0_PG OR X86_CR0_WP OR X86_CR0_CD OR X86_CR0_NW;
              m2 = (if (val XOR cr0 (the_vmcb m1)) AND bits \<noteq> 0
                    then vcpu_tlb_flush m1 else m1);
              m3 = upd_vmcb (\<lambda>v. v\<lparr>cr0 := val AND SVM_CR0_ALLOWED_BITS\<rparr>) m2;
              m4 = (if val AND X86_CR0_PG \<noteq> 0 then update_efer m3 else m3)
          in (True,
              upd_vmcb (\<lambda>v. v\<lparr>clean_bits := clean_bits v AND NOT CLEAN_BITS_CRX\<rparr>) m4))"

definition svm_handle_msr_read :: "collaborators \<Rightarrow> machine \<Rightarrow> bool \<times> machine" where
  "svm_handle_msr_read ext m =
     (if MSR_X2APIC_BASE \<le> rcx (guest_regs m) \<and> rcx (guest_regs m) \<le> MSR_X2APIC_END then
        (True, x2apic_handle_read ext (vcpu_skip_emulated_instruction X86_INST_LEN_RDMSR m))
      else (False, m))"

definition svm_handle_msr_write :: "collaborators \<Rightarrow> machine \<Rightarrow> bool \<times> machine" where
  "svm_handle_msr_write ext m =
     (let g = guest_regs m;
          r = (if MSR_X2APIC_BASE \<le> rcx g \<and> rcx g \<le> MSR_X2APIC_END then
                 x2apic_handle_write ext m
               else if rcx g = ucast MSR_EFER then
                 let efer1 = ((rax g AND 0xffffffff) OR push_bit 32 (rdx g)) OR EFER_SVME;
                     m1 = (if (efer1 XOR efer (the_vmcb m)) AND (EFER_LME OR EFER_NXE) \<noteq> 0
                           then vcpu_tlb_flush m else m);
                     m2 = upd_vmcb (\<lambda>v. v\<lparr>efer := efer1\<rparr>) m1
                 in (True,
                     upd_vmcb (\<lambda>v. v\<lparr>clean_bits := clean_bits v AND NOT CLEAN_BITS_CRX\<rparr>) m2)
               else if rcx g = MTRR_DEFTYPE then
                 let val = (rax g AND 0xffffffff) OR push_bit 32 (rdx g)
                 in if val AND 0x800 \<noteq> 0
                    then (True, write_msr MSR_IA32_PAT PAT_RESET_VALUE m)
                    else (True, write_msr MSR_IA32_PAT 0 m)
               else (False, m))
      in if fst r then (True, vcpu_skip_emulated_instruction X86_INST_LEN_WRMSR (snd r))
         else (False, snd r))"

text \<open>
  \<open>svm_handle_apic_access\<close>: both error exits print and return \<open>false\<close>. The offset is an
  \<open>unsigned int\<close>, so the difference of the two addresses is cut to 32 bits.
\<close>

definition svm_handle_apic_access :: "collaborators \<Rightarrow> machine \<Rightarrow> bool \<times> machine" where
  "svm_handle_apic_access ext m =
     (let v = the_vmcb m;
          wr = (exitinfo1 v AND 0x2 \<noteq> 0);
          offset = (ucast (exitinfo2 v - XAPIC_BASE) :: u32)
      in if offset AND 0x00f \<noteq> 0 then (False, m)
         else case vcpu_get_guest_paging_structs m of
                None \<Rightarrow> (False, m)
              | Some pg \<Rightarrow>
                  let r = apic_mmio_access ext (rip v) pg (drop_bit 4 offset) wr m
                  in if fst r = 0 then (False, snd r)
                     else (True, vcpu_skip_emulated_instruction (fst r) (snd r)))"

definition svm_get_vcpu_pf_intercept :: "machine \<Rightarrow> vcpu_pf_intercept" where
  "svm_get_vcpu_pf_intercept m =
     \<lparr>phys_addr = exitinfo2 (the_vmcb m),
      is_write = (exitinfo1 (the_vmcb m) AND 0x2 \<noteq> 0)\<rparr>"

definition svm_get_vcpu_io_intercept :: "machine \<Rightarrow> vcpu_io_intercept" where
  "svm_get_vcpu_io_intercept m =
     (let exitinfo = exitinfo1 (the_vmcb m) in
      \<lparr>port = ucast (drop_bit 16 exitinfo AND 0xFFFF),
       io_size = ucast (drop_bit 4 exitinfo AND 0x7),
       io_in = (exitinfo AND 0x1 \<noteq> 0),
       inst_len = ucast (exitinfo2 (the_vmcb m) - rip (the_vmcb m)),
       rep_or_str = (exitinfo AND 0x0c \<noteq> 0)\<rparr>)"

definition vcpu_vendor_get_execution_state :: "machine \<Rightarrow> vcpu_execution_state" where
  "vcpu_vendor_get_execution_state m =
     \<lparr>x_efer = efer (the_vmcb m),
      x_rflags = rflags (the_vmcb m),
      x_cs = selector (cs (the_vmcb m)),
      x_rip = rip (the_vmcb m)\<rparr>"

section \<open>Reset of the virtual CPU\<close>

definition svm_set_cell_config :: "cell_svm \<Rightarrow> vmcb \<Rightarrow> vmcb" where
  "svm_set_cell_config c v = v\<lparr>iopm_base_pa := iopm_phys c, n_cr3 := npt_root_phys c\<rparr>"

definition data_segment :: svm_segment where
  "data_segment = \<lparr>selector = 0, access_rights = 0x0093, limit = 0xffff, base = 0\<rparr>"

text \<open>
  \<open>svm_vcpu_reset\<close>. \<open>svm_set_cell_config\<close> always returns \<open>true\<close>, so the panic at the end
  of the function is never taken.
\<close>

definition svm_vcpu_reset :: "u32 \<Rightarrow> machine \<Rightarrow> machine" where
  "svm_vcpu_reset sipi_vector0 m =
     (let val = (if sipi_vector0 = APIC_BSP_PSEUDO_SIPI then 0xfff0 else 0);
          sipi_vector = (if sipi_vector0 = APIC_BSP_PSEUDO_SIPI then 0xf0 else sipi_vector0)
      in upd_vmcb (\<lambda>v. svm_set_cell_config (cell (cpu_data m))
           (v\<lparr>cr0 := X86_CR0_NW OR X86_CR0_CD OR X86_CR0_ET,
              cr3 := 0,
              cr4 := 0,
              rflags := 0x02,
              rip := val,
              rsp := 0,
              cs := \<lparr>selector = ucast (push_bit 8 sipi_vector), access_rights = 0x009b,
                      limit = 0xffff, base = ucast (push_bit 12 sipi_vector)\<rparr>,
              ds := data_segment,
              es := data_segment,
              fs := data_segment,
              gs := data_segment,
              ss := data_segment,
              tr := \<lparr>selector = 0, access_rights = 0x008b, limit = 0xffff, base = 0\<rparr>,
              ldtr := \<lparr>selector = 0, access_rights = 0x0082, limit = 0xffff, base = 0\<rparr>,
              gdtr := \<lparr>selector = 0, access_rights = 0, limit = 0xffff, base = 0\<rparr>,
              idtr := \<lparr>selector = 0, access_rights = 0, limit = 0xffff, base = 0\<rparr>,
              efer := EFER_SVME,
              star := 0,
              lstar := 0,
              cstar := 0,
              sfmask := 0,
              sysenter_cs := 0,
              sysenter_eip := 0,
              sysenter_esp := 0,
              kerngsbase := 0,
              g_pat := PAT_RESET_VALUE,
              dr7 := 0x00000400,
              clean_bits := 0\<rparr>)) m)"

section \<open>The exit dispatcher\<close>

text \<open>
  How \<open>vcpu_handle_exit\<close> ends: it returns, and the guest is entered again, or it falls
  through to \<open>panic_park\<close> after dumping the guest registers.
\<close>

datatype exit_outcome = Resume_guest | Panic_park

text \<open>The statements of \<open>vcpu_handle_exit\<close> in front of the \<open>switch\<close>.\<close>

definition vcpu_handle_exit_entry :: "machine \<Rightarrow> machine" where
  "vcpu_handle_exit_entry m =
     (let m1 = write_msr MSR_GS_BASE (cpu_data_addr (cpu_data m)) m;
          m2 = stats_inc JAILHOUSE_CPU_STAT_VMEXITS_TOTAL m1
      in upd_vmcb (\<lambda>v. v\<lparr>clean_bits := 0xffffffff\<rparr>) m2)"

text \<open>The \<open>switch\<close> on the exit code, on the machine that the entry statements leave.\<close>

definition vcpu_handle_exit_switch :: "collaborators \<Rightarrow> machine \<Rightarrow> exit_outcome \<times> machine" where
  "vcpu_handle_exit_switch ext m =
     (let code = exitcode (the_vmcb m) in
      if code = VMEXIT_INVALID then (Panic_park, m)
      else if code = VMEXIT_NMI then
        let m1 = stats_inc JAILHOUSE_CPU_STAT_VMEXITS_MANAGEMENT m;
            m2 = (m1\<lparr>gif := True\<rparr>)\<lparr>gif := False\<rparr>;
            r = x86_handle_events ext m2;
            m3 = (if 0 \<le>s fst r
                  then (svm_vcpu_reset (fst r) (snd r))\<lparr>guest_regs := zero_registers\<rparr>
                  else snd r)
        in (Resume_guest, iommu_check_pending_faults ext m3)
      else if code = VMEXIT_CPUID then (Resume_guest, m)
      else if code = VMEXIT_VMMCALL then
        (Resume_guest, vcpu_handle_hypercall ext (vcpu_vendor_get_execution_state m) m)
      else if code = VMEXIT_CR0_SEL_WRITE then
        let r = svm_handle_cr ext (stats_inc JAILHOUSE_CPU_STAT_VMEXITS_CR m)
        in (if fst r then Resume_guest else Panic_park, snd r)
      else if code = VMEXIT_MSR then
        let m1 = stats_inc JAILHOUSE_CPU_STAT_VMEXITS_MSR m;
            r = (if exitinfo1 (the_vmcb m1) = 0 then svm_handle_msr_read ext m1
                 else svm_handle_msr_write ext m1)
        in (if fst r then Resume_guest else Panic_park, snd r)
      else if code = VMEXIT_NPF then
        (if exitinfo1 (the_vmcb m) AND 0x7 = 0x7 \<and> XAPIC_BASE \<le> exitinfo2 (the_vmcb m)
            \<and> exitinfo2 (the_vmcb m) < XAPIC_BASE + PAGE_SIZE then
           let r = svm_handle_apic_access ext (stats_inc JAILHOUSE_CPU_STAT_VMEXITS_XAPIC m)
           in (if fst r then Resume_guest else Panic_park, snd r)
         else
           let m1 = stats_inc JAILHOUSE_CPU_STAT_VMEXITS_MMIO m;
               r = vcpu_handle_pt_violation ext (svm_get_vcpu_pf_intercept m1) m1
           in (if fst r then Resume_guest else Panic_park, snd r))
      else if code = VMEXIT_XSETBV then
        let m1 = stats_inc JAILHOUSE_CPU_STAT_VMEXITS_XSETBV m;
            g = guest_regs m1
        in if rax g AND X86_XCR0_FP \<noteq> 0 \<and> rax g AND ucast (NOT (cpuid_eax ext 0x0d)) = 0
              \<and> rcx g = 0 \<and> rdx g = 0 then
             (Resume_guest,
              (vcpu_skip_emulated_instruction X86_INST_LEN_XSETBV m1)
                 \<lparr>xcr0 := rax g AND 0xffffffff\<rparr>)
           else (Panic_park, m1)
      else if code = VMEXIT_IOIO then
        let m1 = stats_inc JAILHOUSE_CPU_STAT_VMEXITS_PIO m;
            r = vcpu_handle_io_access ext (svm_get_vcpu_io_intercept m1) m1
        in (if fst r then Resume_guest else Panic_park, snd r)
      else (Panic_park, m))"

definition vcpu_handle_exit :: "collaborators \<Rightarrow> machine \<Rightarrow> exit_outcome \<times> machine" where
  "vcpu_handle_exit ext m = vcpu_handle_exit_switch ext (vcpu_handle_exit_entry m)"

section \<open>Nested page tables of a cell\<close>

datatype paging_error = Mapping_rejected

definition frame_of :: "u64 \<Rightarrow> nat" where
  "frame_of a = unat a div 4096"

text \<open>
  Modelled from the spec: \<open>paging_create\<close> (declared in \<open>jailhouse/paging.h\<close>) is not
  among the source files. Create-mapping takes the space, the host-physical start, the
  length, the guest-physical start and the flags; it enters one entry per page of the
  range, each with the host page that lies as far into the host range as the guest page
  lies into the guest range, and with the flags as given. A call whose range overlaps
  an existing mapping fails. The page pool is not modelled: no call fails for lack of
  pages.
\<close>

definition paging_create ::
  "paging_structures \<Rightarrow> u64 \<Rightarrow> u64 \<Rightarrow> u64 \<Rightarrow> u64 \<Rightarrow> paging_error + paging_structures" where
  "paging_create pt phys sz virt fl =
     (let first = frame_of virt; n = unat sz div 4096 in
      if list_ex (\<lambda>f. pt f \<noteq> None) [first ..< first + n] then Inl Mapping_rejected
      else Inr (\<lambda>f. if first \<le> f \<and> f < first + n
                     then Some \<lparr>host_page = phys + of_nat ((f - first) * 4096),
                                entry_flags = fl\<rparr>
                     else pt f))"

text \<open>
  Modelled from the spec: the translation query (\<open>paging_virt2phys\<close>, declared in
  \<open>jailhouse/paging.h\<close>) is not among the source files. It walks the same structure
  read-only: an unmapped page faults (\<open>None\<close>), a mapped one gives the host-physical
  address of the byte and the permission encoding of the entry.
\<close>

definition paging_query :: "paging_structures \<Rightarrow> u64 \<Rightarrow> (u64 \<times> u64) option" where
  "paging_query pt gphys =
     (case pt (frame_of gphys) of
        None \<Rightarrow> None
      | Some e \<Rightarrow> Some (host_page e + (gphys AND PAGE_OFFS_MASK), entry_flags e))"

text \<open>\<open>struct jailhouse_memory\<close>, one memory region of a cell configuration.\<close>

record jailhouse_memory =
  phys_start :: u64
  virt_start :: u64
  mem_size :: u64
  flags :: u64

text \<open>\<open>vcpu_map_memory_region\<close>: \<open>Inl\<close> is a non-zero return value, \<open>Inr\<close> the cell
  after a return value of 0.\<close>

definition vcpu_map_memory_region ::
  "cell_svm \<Rightarrow> jailhouse_memory \<Rightarrow> paging_error + cell_svm" where
  "vcpu_map_memory_region c mem =
     (let phys_start0 = phys_start mem;
          flags0 = PAGE_FLAG_US;
          flags1 = (if flags mem AND JAILHOUSE_MEM_READ \<noteq> 0
                    then flags0 OR PAGE_FLAG_PRESENT else flags0);
          flags2 = (if flags mem AND JAILHOUSE_MEM_WRITE \<noteq> 0
                    then flags1 OR PAGE_FLAG_RW else flags1);
          flags3 = (if \<not> (flags mem AND JAILHOUSE_MEM_EXECUTE \<noteq> 0)
                    then flags2 OR PAGE_FLAG_NOEXECUTE else flags2);
          phys_start1 = (if flags mem AND JAILHOUSE_MEM_COMM_REGION \<noteq> 0
                         then comm_page_phys c else phys_start0)
      in case paging_create (npt_structs c) phys_start1 (mem_size mem) (virt_start mem) flags3 of
           Inl e \<Rightarrow> Inl e
         | Inr pt \<Rightarrow> Inr (c\<lparr>npt_structs := pt\<rparr>))"

section \<open>The driver's statistics file\<close>

text \<open>
  The numbers of the hypercall interface (\<open>jailhouse/hypercall.h\<close>, not among the source
  files): the hypercall that reads per-CPU information, the base of the statistics codes,
  and the code of each category. No statement below depends on their values.
\<close>

definition JAILHOUSE_HC_CPU_GET_INFO :: u32 where "JAILHOUSE_HC_CPU_GET_INFO = 7"
definition JAILHOUSE_CPU_INFO_STAT_BASE :: u32 where "JAILHOUSE_CPU_INFO_STAT_BASE = 1000"


text \<open>
  The hypercall \<open>jailhouse_call_arg2\<close> is answered by the hypervisor; it is a parameter:
  from the hypercall number and the two arguments to the 32-bit result, which
  \<open>stats_show\<close> stores in an \<open>int\<close>.
\<close>

type_synonym hypercall = "u32 \<Rightarrow> u32 \<Rightarrow> u32 \<Rightarrow> u32"

text \<open>
  The loop of \<open>stats_show\<close> over the CPUs of \<open>cell->cpus_assigned\<close>, given as the list of
  CPU numbers that \<open>for_each_cpu\<close> runs through; the accumulator is the
  \<open>unsigned long sum\<close>.
\<close>

fun stats_sum :: "hypercall \<Rightarrow> u32 \<Rightarrow> u32 list \<Rightarrow> u64 \<Rightarrow> u64" where
  "stats_sum hc code [] acc = acc"
| "stats_sum hc code (cpu # cpus) acc =
     (let val = hc JAILHOUSE_HC_CPU_GET_INFO cpu code
      in stats_sum hc code cpus (if 0 <s val then acc + scast val else acc))"

text \<open>The conversion \<open>%lu\<close> of \<open>sprintf\<close>.\<close>

fun decimal :: "nat \<Rightarrow> string" where
  "decimal n =
     (if n < 10 then [char_of (48 + n)]
      else decimal (n div 10) @ [char_of (48 + n mod 10)])"

declare decimal.simps [simp del]

text \<open>
  \<open>stats_show\<close> returns what \<open>sprintf\<close> returns, the number of characters written, and
  leaves the text in the buffer.
\<close>

definition stats_show :: "hypercall \<Rightarrow> u32 \<Rightarrow> u32 list \<Rightarrow> int \<times> string" where
  "stats_show hc attr_code cpus_assigned =
     (let code = JAILHOUSE_CPU_INFO_STAT_BASE + attr_code;
          result = stats_sum hc code cpus_assigned 0;
          buffer = decimal (unat result) @ [CHR 0x0A]
      in (int (length buffer), buffer))"

section \<open>Notions used in the statements\<close>

text \<open>The value that \<open>vcpu_tlb_flush\<close> writes to the control block to ask for a flush.\<close>

definition tlb_flush_request :: "machine \<Rightarrow> u8" where
  "tlb_flush_request m =
     (if has_flush_by_asid m then SVM_TLB_FLUSH_GUEST else SVM_TLB_FLUSH_ALL)"

text \<open>
  \<open>vmcb_setup\<close> and \<open>svm_vcpu_reset\<close> mark all of the guest state as new by clearing
  every clean bit: the whole cached state is dirty when \<open>clean_bits\<close> is 0.
\<close>

definition all_state_dirty :: "vmcb \<Rightarrow> bool" where
  "all_state_dirty v = (clean_bits v = 0)"



text \<open>
  The flags that \<open>vcpu_map_memory_region\<close> hands to \<open>paging_create\<close>, in closed form,
  and the host-physical start of the mapping: the communication page of the cell for a
  communication region, the start given in the region otherwise.
\<close>

definition region_flags :: "jailhouse_memory \<Rightarrow> u64" where
  "region_flags mem =
     PAGE_FLAG_US
       OR (if flags mem AND JAILHOUSE_MEM_READ \<noteq> 0 then PAGE_FLAG_PRESENT else 0)
       OR (if flags mem AND JAILHOUSE_MEM_WRITE \<noteq> 0 then PAGE_FLAG_RW else 0)
       OR (if flags mem AND JAILHOUSE_MEM_EXECUTE \<noteq> 0 then 0 else PAGE_FLAG_NOEXECUTE)"

definition region_host_start :: "cell_svm \<Rightarrow> jailhouse_memory \<Rightarrow> u64" where
  "region_host_start c mem =
     (if flags mem AND JAILHOUSE_MEM_COMM_REGION \<noteq> 0 then comm_page_phys c
      else phys_start mem)"

text \<open>
  The byte that the guest has at a linear address: the byte at the offset of the address
  in the mapping of its page, \<open>None\<close> when the page cannot be mapped.
\<close>

definition guest_byte :: "page_mapper \<Rightarrow> guest_paging_structures \<Rightarrow> u64 \<Rightarrow> u8 option" where
  "guest_byte gp pg a =
     map_option (\<lambda>w. w (unat (a AND PAGE_OFFS_MASK))) (gp pg (a AND NOT PAGE_OFFS_MASK))"

text \<open>
  The general-purpose registers of the guest by their architectural numbers: 0 \<open>rax\<close>,
  1 \<open>rcx\<close>, 2 \<open>rdx\<close>, 3 \<open>rbx\<close>, 4 \<open>rsp\<close>, which the processor keeps in the control
  block, 5 \<open>rbp\<close>, 6 \<open>rsi\<close>, 7 \<open>rdi\<close>, and 8 to 15 \<open>r8\<close> to \<open>r15\<close>.
\<close>

definition gpr_value :: "machine \<Rightarrow> nat \<Rightarrow> u64" where
  "gpr_value m n =
     (let g = guest_regs m in
      [rax g, rcx g, rdx g, rbx g, rsp (the_vmcb m), rbp g, rsi g, rdi g,
       r8 g, r9 g, r10 g, r11 g, r12 g, r13 g, r14 g, r15 g] ! n)"

text \<open>
  The linear address of the instruction at which the guest stopped: the instruction
  pointer on top of the base of the code segment, which is taken as zero in long mode.
\<close>

definition guest_inst_addr :: "machine \<Rightarrow> u64" where
  "guest_inst_addr m =
     (if efer (the_vmcb m) AND EFER_LMA \<noteq> 0 then 0 else base (cs (the_vmcb m)))
       + rip (the_vmcb m)"

text \<open>
  The source register that the intercepted move to CR0 names, by its architectural
  number, as the processor and the guest's memory give it. With decode assists the
  processor reports a move to a control register in bit 63 of EXITINFO1 and the number of
  the general-purpose register in bits 3:0. Without them the instruction is read from the
  guest's memory: the bytes 0f 22 and a ModRM byte with 0 in bits 5:3, whose bits 2:0 are
  the number of the register; an instruction with a prefix does not start with 0f.
\<close>

definition mov_cr0_source :: "collaborators \<Rightarrow> machine \<Rightarrow> nat option" where
  "mov_cr0_source ext m =
     (if has_assists m then
        (if bit (exitinfo1 (the_vmcb m)) 63
         then Some (unat (exitinfo1 (the_vmcb m) AND 0xf)) else None)
      else
        (case vcpu_get_guest_paging_structs m of
           None \<Rightarrow> None
         | Some pg \<Rightarrow>
             let a = guest_inst_addr m in
             if guest_byte (guest_page ext) pg a = Some 0x0f
                \<and> guest_byte (guest_page ext) pg (a + 1) = Some 0x22
             then (case guest_byte (guest_page ext) pg (a + 2) of
                     None \<Rightarrow> None
                   | Some modrm \<Rightarrow>
                       if drop_bit 3 (modrm AND 0x38) = 0 then Some (unat (modrm AND 0x7))
                       else None)
             else None))"

section \<open>Example states\<close>

definition zero_segment :: svm_segment where
  "zero_segment = \<lparr>selector = 0, access_rights = 0, limit = 0, base = 0\<rparr>"

text \<open>The control block after the \<open>memset\<close> of \<open>vmcb_setup\<close>.\<close>

definition zero_vmcb :: vmcb where
  "zero_vmcb = \<lparr>iopm_base_pa = 0, tlb_control = 0, exitcode = 0, exitinfo1 = 0,
     exitinfo2 = 0, n_cr3 = 0, clean_bits = 0, es = zero_segment, cs = zero_segment,
     ss = zero_segment, ds = zero_segment, fs = zero_segment, gs = zero_segment,
     gdtr = zero_segment, ldtr = zero_segment, idtr = zero_segment, tr = zero_segment,
     efer = 0, cr4 = 0, cr3 = 0, cr0 = 0, dr7 = 0, rflags = 0, rip = 0, rsp = 0,
     star = 0, lstar = 0, cstar = 0, sfmask = 0, kerngsbase = 0, sysenter_cs = 0,
     sysenter_esp = 0, sysenter_eip = 0, g_pat = 0\<rparr>"

definition empty_cell :: cell_svm where
  "empty_cell = \<lparr>iopm_phys = 0x10000, npt_root_phys = 0x20000, comm_page_phys = 0x30000,
     npt_structs = (\<lambda>f. None)\<rparr>"

text \<open>A CPU with virtualization on, a zeroed control block and counters at zero.\<close>

definition fresh_machine :: machine where
  "fresh_machine =
     \<lparr>cpu_data = \<lparr>cpu_data_addr = 0xfffffffff0000000, stats = (\<lambda>c. 0), vmcb = zero_vmcb,
                   svm_state = SVMON, cell = empty_cell\<rparr>,
      guest_regs = zero_registers, msrs = (\<lambda>r. 0), gif = False, xcr0 = 1,
      has_assists = True, has_flush_by_asid = False\<rparr>"

text \<open>Collaborators that change nothing and handle nothing.\<close>

definition idle_collaborators :: collaborators where
  "idle_collaborators =
     \<lparr>guest_page = (\<lambda>pg a. None),
      x86_handle_events = (\<lambda>m. (- 1, m)),
      iommu_check_pending_faults = (\<lambda>m. m),
      vcpu_handle_hypercall = (\<lambda>x m. m),
      x2apic_handle_read = (\<lambda>m. m),
      x2apic_handle_write = (\<lambda>m. (False, m)),
      apic_mmio_access = (\<lambda>pc pg r w m. (0, m)),
      vcpu_handle_pt_violation = (\<lambda>pf m. (False, m)),
      vcpu_handle_io_access = (\<lambda>io m. (False, m)),
      cpuid_eax = (\<lambda>leaf. 0x7)\<rparr>"

text \<open>A guest that writes 0x100 (long-mode enable set, virtualization enable clear) to
  the extended-feature-enable register.\<close>

definition efer_write_machine :: machine where
  "efer_write_machine =
     fresh_machine\<lparr>guest_regs := zero_registers\<lparr>rcx := 0xc0000080, rax := 0x100\<rparr>\<rparr>"

text \<open>
  A guest stopped by an intercepted WRMSR (exit code 0x7c, EXITINFO1 = 1) with
  RCX = 0x1c0000080, whose low half is the number of the extended-feature-enable
  register, and EDX:EAX = 0x100; the register stored in the control block is 0x1000.
\<close>

definition high_rcx_machine :: machine where
  "high_rcx_machine =
     (upd_vmcb (\<lambda>v. v\<lparr>exitcode := 0x7c, exitinfo1 := 1, efer := 0x1000\<rparr>) fresh_machine)
       \<lparr>guest_regs := zero_registers\<lparr>rcx := 0x1c0000080, rax := 0x100\<rparr>\<rparr>"

text \<open>The same CPU with virtualization already off.\<close>

definition svm_off_machine :: machine where
  "svm_off_machine = fresh_machine\<lparr>cpu_data := (cpu_data fresh_machine)\<lparr>svm_state := SVMOFF\<rparr>\<rparr>"

text \<open>An exit with the exit code of an intercepted CPUID.\<close>

definition cpuid_exit_machine :: machine where
  "cpuid_exit_machine = upd_vmcb (\<lambda>v. v\<lparr>exitcode := 0x72\<rparr>) fresh_machine"

text \<open>Guests in long mode, with legacy two-level paging, and with PAE paging outside
  long mode.\<close>

definition long_mode_machine :: machine where
  "long_mode_machine =
     upd_vmcb (\<lambda>v. v\<lparr>efer := 0x1500, cr0 := 0x80000011, cr4 := 0x20, cr3 := 0x123456789abc\<rparr>)
       fresh_machine"

definition legacy_paged_machine :: machine where
  "legacy_paged_machine =
     upd_vmcb (\<lambda>v. v\<lparr>efer := 0x1000, cr0 := 0x80000011, cr4 := 0, cr3 := 0x54321abc\<rparr>)
       fresh_machine"

definition pae_paged_machine :: machine where
  "pae_paged_machine =
     upd_vmcb (\<lambda>v. v\<lparr>efer := 0x1000, cr0 := 0x80000011, cr4 := 0x20, cr3 := 0x54321abc\<rparr>)
       fresh_machine"

text \<open>
  A guest with paging on and long-mode enable set but long mode not yet active, which
  writes to CR0 the value that CR0 already has; the processor has decode assists and
  names \<open>rax\<close> as the source register.
\<close>

definition cr0_rewrite_machine :: machine where
  "cr0_rewrite_machine =
     (upd_vmcb (\<lambda>v. v\<lparr>exitcode := 0x65, exitinfo1 := 0x8000000000000000,
                       cr0 := 0x80000011, efer := 0x1100\<rparr>) fresh_machine)
       \<lparr>guest_regs := zero_registers\<lparr>rax := 0x80000011, rcx := 0xc0000080\<rparr>\<rparr>"

text \<open>
  A guest with PAE paging on and long-mode enable set but long mode not yet active, which
  sets the numeric-error bit (bit 5) of CR0 from \<open>rax\<close>: the new value 0x80000031
  differs from CR0 in that bit alone. The processor has decode assists.
\<close>

definition cr0_ne_machine :: machine where
  "cr0_ne_machine =
     (upd_vmcb (\<lambda>v. v\<lparr>exitcode := 0x65, exitinfo1 := 0x8000000000000000,
                       cr0 := 0x80000011, cr4 := 0x20, efer := 0x1100\<rparr>) fresh_machine)
       \<lparr>guest_regs := zero_registers\<lparr>rax := 0x80000031\<rparr>\<rparr>"

text \<open>Answers of the hypervisor to the driver: CPU 0 has counted 7 exits, CPU 1 none,
  CPU 3 five, and the calls for every other CPU fail.\<close>

definition sample_hypercall :: hypercall where
  "sample_hypercall num cpu code =
     (if num = JAILHOUSE_HC_CPU_GET_INFO \<and> code = JAILHOUSE_CPU_INFO_STAT_BASE then
        (if cpu = 0 then 7 else if cpu = 1 then 0 else if cpu = 2 then - 22
         else if cpu = 3 then 5 else - 1)
      else - 22)"




text \<open>The region of the end-to-end scenario: guest-physical 0x1000, host-physical 0x2000,
  one page, readable and writable.\<close>

definition ram_region :: jailhouse_memory where
  "ram_region = \<lparr>phys_start = 0x2000, virt_start = 0x1000, mem_size = 0x1000, flags = 0x3\<rparr>"

text \<open>
  Guest memory in which the instruction \<open>mov %rax, %cr0\<close> (bytes 0f 22 c0) starts at the
  last byte of the page at 0x1000 and ends in the page at 0x2000; behind the mapping of
  the first page the hypervisor finds zeros.
\<close>

definition crossing_pages :: page_mapper where
  "crossing_pages pg a =
     (if a = 0x1000 then Some (\<lambda>i. if i = 0xfff then 0x0f else 0)
      else if a = 0x2000 then Some (\<lambda>i. if i = 0 then 0x22 else if i = 1 then 0xc0 else 0)
      else None)"

text \<open>
  Guest memory in which only the page at 0x1000 can be mapped; behind its mapping the
  hypervisor finds the bytes 22 c3.
\<close>

definition last_page_only :: page_mapper where
  "last_page_only pg a =
     (if a = 0x1000
      then Some (\<lambda>i. if i = 0xfff then 0x0f else if i = 0x1000 then 0x22
                     else if i = 0x1001 then 0xc3 else 0)
      else None)"

text \<open>An unpaged guest on a CPU without decode assists, stopped at 0x1fff by a write
  to CR0.\<close>

definition crossing_machine :: machine where
  "crossing_machine =
     (upd_vmcb (\<lambda>v. v\<lparr>exitcode := 0x65, cr0 := 0x10, rip := 0x1fff\<rparr>) fresh_machine)
       \<lparr>has_assists := False\<rparr>"

text \<open>
  Guest memory with the instruction \<open>mov %rbx, %cr0\<close> (bytes 0f 22 c3) at 0x1010, and
  an unpaged guest with long-mode enable and the physical-address extension set that has
  stopped there, on a CPU without decode assists, with 0x80000011 in \<open>rbx\<close>.
\<close>

definition inline_pages :: page_mapper where
  "inline_pages pg a =
     (if a = 0x1000
      then Some (\<lambda>i. if i = 0x10 then 0x0f else if i = 0x11 then 0x22
                     else if i = 0x12 then 0xc3 else 0)
      else None)"

definition inline_collaborators :: collaborators where
  "inline_collaborators = idle_collaborators\<lparr>guest_page := inline_pages\<rparr>"

definition cr0_parsed_machine :: machine where
  "cr0_parsed_machine =
     (upd_vmcb (\<lambda>v. v\<lparr>exitcode := 0x65, cr0 := 0x10, cr4 := 0x20, efer := 0x1100, rip := 0x1010\<rparr>)
        fresh_machine)
       \<lparr>guest_regs := zero_registers\<lparr>rbx := 0x80000011\<rparr>, has_assists := False\<rparr>"

section \<open>Basic facts\<close>

lemmas example_defs = fresh_machine_def zero_vmcb_def zero_segment_def empty_cell_def
  zero_registers_def idle_collaborators_def efer_write_machine_def svm_off_machine_def
  cpuid_exit_machine_def

lemma the_vmcb_upd_vmcb [simp]: "the_vmcb (upd_vmcb f m) = f (the_vmcb m)"
  by (simp add: the_vmcb_def upd_vmcb_def)

lemma upd_vmcb_frame [simp]:
  "guest_regs (upd_vmcb f m) = guest_regs m"
  "stats (cpu_data (upd_vmcb f m)) = stats (cpu_data m)"
  "has_assists (upd_vmcb f m) = has_assists m"
  "has_flush_by_asid (upd_vmcb f m) = has_flush_by_asid m"
  "msrs (upd_vmcb f m) = msrs m"
  by (simp_all add: upd_vmcb_def)

lemma the_vmcb_tlb_flush:
  "the_vmcb (vcpu_tlb_flush m) = (the_vmcb m)\<lparr>tlb_control := tlb_flush_request m\<rparr>"
  by (simp add: vcpu_tlb_flush_def tlb_flush_request_def)

lemma test_bit_mask: "((x::u64) AND 2 ^ n \<noteq> 0) = bit x n"
  by (simp add: and_exp_eq_0_iff_not_bit)

lemma test_two_bits:
  "((x::u64) AND (2 ^ i OR 2 ^ j) \<noteq> 0) = (bit x i \<or> bit x j)"
  unfolding bit.conj_disj_distrib or_eq_0_iff de_Morgan_conj test_bit_mask ..

lemma efer_lme_nxe_toggle:
  "(((a::u64) XOR b) AND (EFER_LME OR EFER_NXE) \<noteq> 0)
     = (bit a 8 \<noteq> bit b 8 \<or> bit a 11 \<noteq> bit b 11)"
proof -
  have eq: "EFER_LME OR EFER_NXE = (2 ^ 8 OR 2 ^ 11 :: u64)"
    by (simp add: EFER_LME_def EFER_NXE_def)
  show ?thesis
    unfolding eq test_two_bits by (auto simp add: bit_xor_iff)
qed

lemma edx_eax:
  "((a::u64) AND 0xffffffff) OR push_bit 32 d = word_cat (ucast d :: u32) (ucast a :: u32)"
proof -
  have eq: "(0xffffffff :: u64) = mask 32" by (simp add: mask_eq_exp_minus_1)
  show ?thesis
    unfolding eq by (rule bit_word_eqI) (auto simp add: bit_simps)
qed

lemma svme_bit: "bit (x OR EFER_SVME) 12"
  by (simp add: bit_or_iff EFER_SVME_def)

lemma entry_frame:
  "has_assists (vcpu_handle_exit_entry m) = has_assists m"
  "has_flush_by_asid (vcpu_handle_exit_entry m) = has_flush_by_asid m"
  "guest_regs (vcpu_handle_exit_entry m) = guest_regs m"
  "the_vmcb (vcpu_handle_exit_entry m) = (the_vmcb m)\<lparr>clean_bits := 0xffffffff\<rparr>"
  "stats (cpu_data (vcpu_handle_exit_entry m)) =
     (stats (cpu_data m))(JAILHOUSE_CPU_STAT_VMEXITS_TOTAL :=
        stats (cpu_data m) JAILHOUSE_CPU_STAT_VMEXITS_TOTAL + 1)"
  by (simp_all add: vcpu_handle_exit_entry_def Let_def stats_inc_def write_msr_def
      upd_vmcb_def the_vmcb_def)

section \<open>Write to the extended-feature-enable register\<close>

lemma high_rcx_values:
  "the_vmcb high_rcx_machine = zero_vmcb\<lparr>exitcode := 0x7c, exitinfo1 := 1, efer := 0x1000\<rparr>"
  "guest_regs high_rcx_machine = zero_registers\<lparr>rcx := 0x1c0000080, rax := 0x100\<rparr>"
  by (simp_all add: high_rcx_machine_def fresh_machine_def upd_vmcb_def the_vmcb_def)

text \<open>
  C1 at a write whose RCX has a bit set above bit 31. WRMSR selects the register by ECX,
  so the write of the guest, with RCX = 0x1c0000080, targets the
  extended-feature-enable register, number 0xc0000080; EDX:EAX is 0x100, and the value to
  be stored is 0x1100. The handler compares all 64 bits of RCX with the number of the
  register, takes the write for one to a register it does not know and returns
  \<open>false\<close> with the machine as it was: the dispatcher parks the CPU, and the register in
  the control block still is 0x1000.
\<close>

theorem svm_handle_msr_write_efer_high_rcx:
  "(ucast (rcx (guest_regs high_rcx_machine)) :: u32) = MSR_EFER
   \<and> word_cat (ucast (rdx (guest_regs high_rcx_machine)) :: u32)
        (ucast (rax (guest_regs high_rcx_machine)) :: u32) OR EFER_SVME = (0x1100 :: u64)
   \<and> svm_handle_msr_write idle_collaborators high_rcx_machine = (False, high_rcx_machine)
   \<and> fst (vcpu_handle_exit idle_collaborators high_rcx_machine) = Panic_park
   \<and> efer (the_vmcb (snd (vcpu_handle_exit idle_collaborators high_rcx_machine))) = 0x1000"
proof -
  have g: "rcx (guest_regs high_rcx_machine) = 0x1c0000080"
    "rax (guest_regs high_rcx_machine) = 0x100" "rdx (guest_regs high_rcx_machine) = 0"
    by (simp_all add: high_rcx_values zero_registers_def)
  have e: "(ucast (0x1c0000080 :: u64) :: u32) = MSR_EFER"
    by (simp add: MSR_EFER_def)
  have c: "word_cat (ucast (0 :: u64) :: u32) (ucast (0x100 :: u64) :: u32) OR EFER_SVME
             = (0x1100 :: u64)"
    by (simp add: EFER_SVME_def word_cat_eq)
  have w: "svm_handle_msr_write idle_collaborators m = (False, m)"
    if "rcx (guest_regs m) = 0x1c0000080" for m
    using that
    by (simp add: svm_handle_msr_write_def Let_def MSR_X2APIC_BASE_def MSR_X2APIC_END_def
        MSR_EFER_def MTRR_DEFTYPE_def)
  let ?m1 = "stats_inc JAILHOUSE_CPU_STAT_VMEXITS_MSR (vcpu_handle_exit_entry high_rcx_machine)"
  have g1: "rcx (guest_regs ?m1) = 0x1c0000080"
    by (simp add: stats_inc_def entry_frame g)
  have v1: "the_vmcb ?m1 = (the_vmcb high_rcx_machine)\<lparr>clean_bits := 0xffffffff\<rparr>"
    by (simp add: stats_inc_def the_vmcb_def entry_frame [unfolded the_vmcb_def])
  have code: "exitcode (the_vmcb (vcpu_handle_exit_entry high_rcx_machine)) = VMEXIT_MSR"
    by (simp add: entry_frame high_rcx_values VMEXIT_MSR_def)
  have x1: "exitinfo1 (the_vmcb ?m1) \<noteq> 0"
    by (simp add: v1 high_rcx_values)
  have sw: "vcpu_handle_exit_switch idle_collaborators (vcpu_handle_exit_entry high_rcx_machine)
              = (Panic_park, ?m1)"
    using x1
    by (simp add: vcpu_handle_exit_switch_def code Let_def w [OF g1] VMEXIT_MSR_def
        VMEXIT_INVALID_def VMEXIT_NMI_def VMEXIT_CPUID_def VMEXIT_VMMCALL_def
        VMEXIT_CR0_SEL_WRITE_def)
  have c1: "(ucast (rcx (guest_regs high_rcx_machine)) :: u32) = MSR_EFER"
    by (simp only: g e)
  have c2: "word_cat (ucast (rdx (guest_regs high_rcx_machine)) :: u32)
        (ucast (rax (guest_regs high_rcx_machine)) :: u32) OR EFER_SVME = (0x1100 :: u64)"
    by (simp only: g c)
  have c4: "fst (vcpu_handle_exit idle_collaborators high_rcx_machine) = Panic_park"
    by (simp add: vcpu_handle_exit_def sw)
  have c5: "efer (the_vmcb (snd (vcpu_handle_exit idle_collaborators high_rcx_machine))) = 0x1000"
    by (simp add: vcpu_handle_exit_def sw v1 high_rcx_values)
  from c1 c2 w [OF g(1)] c4 c5 show ?thesis
    by (intro conjI)
qed

text \<open>
  When RCX holds the number of the extended-feature-enable register in all of its 64
  bits, the write is handled, the value stored in the control block is the guest's
  EDX:EAX with the virtualization-enable bit (bit 12) set, whatever the guest wrote
  there, and the flush request is written to the control block if and only if the
  long-mode-enable bit (bit 8) or the no-execute-enable bit (bit 11) of the stored value
  differs from the one stored before; otherwise the flush field keeps its value.
\<close>

lemma svm_handle_msr_write_efer_stored:
  assumes "rcx (guest_regs m) = ucast MSR_EFER"
  shows "let r = svm_handle_msr_write ext m;
             old = efer (the_vmcb m);
             new = efer (the_vmcb (snd r))
         in fst r
          \<and> new = word_cat (ucast (rdx (guest_regs m)) :: u32) (ucast (rax (guest_regs m)) :: u32)
                    OR EFER_SVME
          \<and> bit new 12
          \<and> tlb_control (the_vmcb (snd r)) =
              (if bit new 8 \<noteq> bit old 8 \<or> bit new 11 \<noteq> bit old 11
               then tlb_flush_request m else tlb_control (the_vmcb m))"
proof -
  have notx2: "\<not> (ucast MSR_EFER :: u64) \<le> MSR_X2APIC_END"
    by (simp add: MSR_EFER_def MSR_X2APIC_END_def)
  show ?thesis
    using assms
    by (simp add: notx2 svm_handle_msr_write_def Let_def vcpu_skip_emulated_instruction_def
        the_vmcb_tlb_flush efer_lme_nxe_toggle edx_eax svme_bit)
qed

lemma svm_handle_msr_write_efer_stored_example:
  "rcx (guest_regs efer_write_machine) = ucast MSR_EFER
   \<and> fst (svm_handle_msr_write idle_collaborators efer_write_machine)
   \<and> efer (the_vmcb (snd (svm_handle_msr_write idle_collaborators efer_write_machine))) = 0x1100
   \<and> tlb_control (the_vmcb (snd (svm_handle_msr_write idle_collaborators efer_write_machine)))
       = SVM_TLB_FLUSH_ALL"
proof -
  have h: "rcx (guest_regs efer_write_machine) = ucast MSR_EFER"
    by (simp add: efer_write_machine_def MSR_EFER_def)
  have v: "efer (the_vmcb efer_write_machine) = 0" "rdx (guest_regs efer_write_machine) = 0"
     "rax (guest_regs efer_write_machine) = 0x100" "\<not> has_flush_by_asid efer_write_machine"
    by (simp_all add: example_defs the_vmcb_def)
  show ?thesis
    using svm_handle_msr_write_efer_stored [OF h, of idle_collaborators] h
    by (simp add: Let_def v tlb_flush_request_def EFER_SVME_def word_cat_eq)
qed

section \<open>Disabling virtualization\<close>

text \<open>
  C10. Disabling virtualization is idempotent: when the state of the CPU is already off,
  \<open>vcpu_exit\<close> returns the machine as it is (the EFER and host-save-area MSRs and the
  per-CPU data included), and disabling twice is the same as disabling once.
\<close>

theorem vcpu_exit_idempotent:
  "(svm_state (cpu_data m) = SVMOFF \<longrightarrow> vcpu_exit m = m)
   \<and> vcpu_exit (vcpu_exit m) = vcpu_exit m"
  by (simp add: vcpu_exit_def Let_def write_msr_def)

theorem vcpu_exit_idempotent_witness:
  "svm_state (cpu_data svm_off_machine) = SVMOFF
   \<and> vcpu_exit svm_off_machine = svm_off_machine
   \<and> msrs (vcpu_exit svm_off_machine) MSR_EFER = msrs svm_off_machine MSR_EFER
   \<and> msrs (vcpu_exit svm_off_machine) MSR_VM_HSAVE_PA = msrs svm_off_machine MSR_VM_HSAVE_PA
   \<and> vcpu_exit (vcpu_exit fresh_machine) = vcpu_exit fresh_machine
   \<and> svm_state (cpu_data (vcpu_exit fresh_machine)) = SVMOFF"
proof -
  have h: "svm_state (cpu_data svm_off_machine) = SVMOFF"
    by (simp add: svm_off_machine_def)
  have "svm_state (cpu_data (vcpu_exit fresh_machine)) = SVMOFF"
    by (simp add: vcpu_exit_def Let_def write_msr_def)
  then show ?thesis
    using vcpu_exit_idempotent [of svm_off_machine] vcpu_exit_idempotent [of fresh_machine] h
    by simp
qed

section \<open>Classification of the guest paging mode\<close>

text \<open>
  C5. The classification tests the modes in order and reports exactly one of them or
  fails. It reports long mode, with the root at bits 12 to 51 of CR3, exactly when the
  long-mode-active bit of EFER is set; legacy paging, with the root at bits 12 to 31 of
  CR3, exactly when that bit is clear, paging is enabled and the PAE bit of CR4 is clear;
  no paging, with the fixed root 0xff000, exactly when that bit is clear and paging is
  disabled; and it fails exactly in the remaining combination: long mode inactive,
  paging enabled and PAE set.
\<close>

theorem vcpu_get_guest_paging_structs_modes:
  "((vcpu_get_guest_paging_structs m =
       Some \<lparr>root_paging = x86_64_paging,
             root_table_gphys = cr3 (the_vmcb m) AND 0x000ffffffffff000\<rparr>)
     = (efer (the_vmcb m) AND EFER_LMA \<noteq> 0))
   \<and> ((vcpu_get_guest_paging_structs m =
       Some \<lparr>root_paging = i386_paging, root_table_gphys = cr3 (the_vmcb m) AND 0xfffff000\<rparr>)
     = (efer (the_vmcb m) AND EFER_LMA = 0 \<and> cr0 (the_vmcb m) AND X86_CR0_PG \<noteq> 0
        \<and> cr4 (the_vmcb m) AND X86_CR4_PAE = 0))
   \<and> ((vcpu_get_guest_paging_structs m =
       Some \<lparr>root_paging = realmode_paging, root_table_gphys = 0xff000\<rparr>)
     = (efer (the_vmcb m) AND EFER_LMA = 0 \<and> cr0 (the_vmcb m) AND X86_CR0_PG = 0))
   \<and> ((vcpu_get_guest_paging_structs m = None)
     = (efer (the_vmcb m) AND EFER_LMA = 0 \<and> cr0 (the_vmcb m) AND X86_CR0_PG \<noteq> 0
        \<and> cr4 (the_vmcb m) AND X86_CR4_PAE \<noteq> 0))
   \<and> cr3 (the_vmcb m) AND 0x000ffffffffff000
       = push_bit 12 (take_bit 40 (drop_bit 12 (cr3 (the_vmcb m))))"
proof -
  have eq: "(0x000ffffffffff000 :: u64) = push_bit 12 (mask 40)"
    by (simp add: mask_eq_exp_minus_1)
  have low: "cr3 (the_vmcb m) AND 0x000ffffffffff000
       = push_bit 12 (take_bit 40 (drop_bit 12 (cr3 (the_vmcb m))))"
    unfolding eq by (rule bit_word_eqI) (auto simp add: bit_simps)
  show ?thesis
    by (simp add: vcpu_get_guest_paging_structs_def Let_def low)
qed

theorem vcpu_get_guest_paging_structs_modes_witness:
  "vcpu_get_guest_paging_structs long_mode_machine =
       Some \<lparr>root_paging = x86_64_paging, root_table_gphys = 0x123456789000\<rparr>
   \<and> vcpu_get_guest_paging_structs legacy_paged_machine =
       Some \<lparr>root_paging = i386_paging, root_table_gphys = 0x54321000\<rparr>
   \<and> vcpu_get_guest_paging_structs fresh_machine =
       Some \<lparr>root_paging = realmode_paging, root_table_gphys = 0xff000\<rparr>
   \<and> vcpu_get_guest_paging_structs pae_paged_machine = None"
proof -
  have a: "efer (the_vmcb long_mode_machine) = 0x1500"
     "cr3 (the_vmcb long_mode_machine) = 0x123456789abc"
    by (simp_all add: long_mode_machine_def)
  have b: "efer (the_vmcb legacy_paged_machine) = 0x1000"
     "cr0 (the_vmcb legacy_paged_machine) = 0x80000011"
     "cr4 (the_vmcb legacy_paged_machine) = 0"
     "cr3 (the_vmcb legacy_paged_machine) = 0x54321abc"
    by (simp_all add: legacy_paged_machine_def)
  have c: "efer (the_vmcb fresh_machine) = 0" "cr0 (the_vmcb fresh_machine) = 0"
    by (simp_all add: example_defs the_vmcb_def)
  have d: "efer (the_vmcb pae_paged_machine) = 0x1000"
     "cr0 (the_vmcb pae_paged_machine) = 0x80000011"
     "cr4 (the_vmcb pae_paged_machine) = 0x20"
    by (simp_all add: pae_paged_machine_def)
  show ?thesis
    using vcpu_get_guest_paging_structs_modes [of long_mode_machine]
      vcpu_get_guest_paging_structs_modes [of legacy_paged_machine]
      vcpu_get_guest_paging_structs_modes [of fresh_machine]
      vcpu_get_guest_paging_structs_modes [of pae_paged_machine]
    by (simp add: a b c d EFER_LMA_def X86_CR0_PG_def X86_CR4_PAE_def)
qed

section \<open>The exit dispatcher\<close>

text \<open>
  C9. On an exit with the CPUID exit code the dispatcher returns to the guest at once:
  the instruction pointer and the guest registers are unchanged, the control block is the
  one before the exit with only the clean bits assigned, and the only counter that
  changes is the total-exit counter, by one.
\<close>

theorem vcpu_handle_exit_cpuid:
  assumes "exitcode (the_vmcb m) = VMEXIT_CPUID"
  shows "let r = vcpu_handle_exit ext m in
           fst r = Resume_guest
         \<and> rip (the_vmcb (snd r)) = rip (the_vmcb m)
         \<and> guest_regs (snd r) = guest_regs m
         \<and> the_vmcb (snd r) = (the_vmcb m)\<lparr>clean_bits := 0xffffffff\<rparr>
         \<and> stats (cpu_data (snd r)) =
             (stats (cpu_data m))(JAILHOUSE_CPU_STAT_VMEXITS_TOTAL :=
                stats (cpu_data m) JAILHOUSE_CPU_STAT_VMEXITS_TOTAL + 1)"
proof -
  have code: "exitcode (the_vmcb (vcpu_handle_exit_entry m)) = VMEXIT_CPUID"
    using assms by (simp add: entry_frame)
  have sw: "vcpu_handle_exit_switch ext (vcpu_handle_exit_entry m)
              = (Resume_guest, vcpu_handle_exit_entry m)"
    by (simp add: vcpu_handle_exit_switch_def code Let_def VMEXIT_CPUID_def
        VMEXIT_INVALID_def VMEXIT_NMI_def)
  show ?thesis
    by (simp add: vcpu_handle_exit_def sw entry_frame)
qed

theorem vcpu_handle_exit_cpuid_witness:
  "exitcode (the_vmcb cpuid_exit_machine) = VMEXIT_CPUID
   \<and> fst (vcpu_handle_exit idle_collaborators cpuid_exit_machine) = Resume_guest
   \<and> rip (the_vmcb (snd (vcpu_handle_exit idle_collaborators cpuid_exit_machine))) = 0
   \<and> guest_regs (snd (vcpu_handle_exit idle_collaborators cpuid_exit_machine)) = zero_registers
   \<and> stats (cpu_data (snd (vcpu_handle_exit idle_collaborators cpuid_exit_machine)))
        JAILHOUSE_CPU_STAT_VMEXITS_TOTAL = 1
   \<and> stats (cpu_data (snd (vcpu_handle_exit idle_collaborators cpuid_exit_machine)))
        JAILHOUSE_CPU_STAT_VMEXITS_CPUID = 0"
proof -
  have h: "exitcode (the_vmcb cpuid_exit_machine) = VMEXIT_CPUID"
    by (simp add: cpuid_exit_machine_def VMEXIT_CPUID_def)
  have v: "rip (the_vmcb cpuid_exit_machine) = 0"
    "guest_regs cpuid_exit_machine = zero_registers"
    "stats (cpu_data cpuid_exit_machine) = (\<lambda>c. 0)"
    by (simp_all add: cpuid_exit_machine_def fresh_machine_def zero_vmcb_def the_vmcb_def
        upd_vmcb_def)
  show ?thesis
    using vcpu_handle_exit_cpuid [OF h, of idle_collaborators] h
    by (simp add: Let_def v)
qed

section \<open>Write to control register 0\<close>

lemma bit_two_bits:
  "bit ((e::u64) AND (2 ^ i OR 2 ^ j)) n = (bit e n \<and> n < 64 \<and> (n = i \<or> n = j))"
  by (simp add: bit_and_iff bit_or_iff bit_exp_iff) blast

lemma and_two_bits_eq_first:
  assumes "i \<noteq> j" "i < 64" "j < 64"
  shows "((e::u64) AND (2 ^ i OR 2 ^ j) = 2 ^ i) = (bit e i \<and> \<not> bit e j)"
proof
  assume eq: "e AND (2 ^ i OR 2 ^ j) = 2 ^ i"
  have "bit (e AND (2 ^ i OR 2 ^ j)) i = bit (2 ^ i :: u64) i"
       "bit (e AND (2 ^ i OR 2 ^ j)) j = bit (2 ^ i :: u64) j"
    by (simp_all only: eq)
  then show "bit e i \<and> \<not> bit e j"
    using assms by (simp add: bit_two_bits bit_exp_iff)
next
  assume h: "bit e i \<and> \<not> bit e j"
  show "e AND (2 ^ i OR 2 ^ j) = 2 ^ i"
  proof (rule bit_word_eqI)
    fix n assume "n < LENGTH(64)"
    then show "bit (e AND (2 ^ i OR 2 ^ j)) n = bit (2 ^ i :: u64) n"
      using h assms by (cases "n = i"; cases "n = j"; simp add: bit_two_bits bit_exp_iff)
  qed
qed

lemma lme_without_lma:
  "((e::u64) AND (EFER_LME OR EFER_LMA) = EFER_LME) = (bit e 8 \<and> \<not> bit e 10)"
proof -
  have eq: "EFER_LME = (2 ^ 8 :: u64)" "EFER_LMA = (2 ^ 10 :: u64)"
    by (simp_all add: EFER_LME_def EFER_LMA_def)
  show ?thesis
    unfolding eq by (rule and_two_bits_eq_first) simp_all
qed

lemma lma_becomes_set:
  "\<not> bit (e::u64) 10 \<Longrightarrow> (e XOR (e OR EFER_LMA)) AND EFER_LMA \<noteq> 0"
proof -
  have eq: "EFER_LMA = (2 ^ 10 :: u64)"
    by (simp add: EFER_LMA_def)
  show "\<not> bit e 10 \<Longrightarrow> (e XOR (e OR EFER_LMA)) AND EFER_LMA \<noteq> 0"
    unfolding eq test_bit_mask by (simp add: bit_xor_iff bit_or_iff bit_exp_iff)
qed

lemma the_vmcb_update_efer:
  "the_vmcb (update_efer m) =
     (if bit (efer (the_vmcb m)) 8 \<and> \<not> bit (efer (the_vmcb m)) 10
      then (the_vmcb m)\<lparr>tlb_control := tlb_flush_request m,
                        efer := efer (the_vmcb m) OR EFER_LMA,
                        clean_bits := clean_bits (the_vmcb m) AND NOT CLEAN_BITS_CRX\<rparr>
      else the_vmcb m)"
  by (simp add: update_efer_def Let_def lme_without_lma lma_becomes_set the_vmcb_tlb_flush)

lemma test_four_bits:
  "((x::u64) AND (2 ^ i OR 2 ^ j OR 2 ^ k OR 2 ^ l) \<noteq> 0)
     = (bit x i \<or> bit x j \<or> bit x k \<or> bit x l)"
  unfolding bit.conj_disj_distrib or_eq_0_iff de_Morgan_conj test_bit_mask ..

lemma cr0_flush_bits:
  "(((a::u64) XOR b) AND (X86_CR0_PG OR X86_CR0_WP OR X86_CR0_CD OR X86_CR0_NW) \<noteq> 0)
     = (bit a 31 \<noteq> bit b 31 \<or> bit a 16 \<noteq> bit b 16 \<or> bit a 30 \<noteq> bit b 30
        \<or> bit a 29 \<noteq> bit b 29)"
proof -
  have eq: "X86_CR0_PG = (2 ^ 31 :: u64)" "X86_CR0_WP = (2 ^ 16 :: u64)"
     "X86_CR0_CD = (2 ^ 30 :: u64)" "X86_CR0_NW = (2 ^ 29 :: u64)"
    by (simp_all add: X86_CR0_PG_def X86_CR0_WP_def X86_CR0_CD_def X86_CR0_NW_def)
  show ?thesis
    unfolding eq test_four_bits by (auto simp add: bit_xor_iff)
qed

lemma cr0_pg_bit: "((a::u64) AND X86_CR0_PG \<noteq> 0) = bit a 31"
proof -
  have eq: "X86_CR0_PG = (2 ^ 31 :: u64)"
    by (simp add: X86_CR0_PG_def)
  show ?thesis unfolding eq by (rule test_bit_mask)
qed

lemma nw_clear: "\<not> bit ((a::u64) AND SVM_CR0_ALLOWED_BITS) 29"
proof -
  have eq: "X86_CR0_NW = (2 ^ 29 :: u64)" by (simp add: X86_CR0_NW_def)
  show ?thesis
    unfolding SVM_CR0_ALLOWED_BITS_def eq by (simp add: bit_and_iff bit_not_iff bit_exp_iff)
qed



lemma the_vmcb_skip:
  "the_vmcb (vcpu_skip_emulated_instruction n m) = (the_vmcb m)\<lparr>rip := rip (the_vmcb m) + ucast n\<rparr>"
  by (simp add: vcpu_skip_emulated_instruction_def)

lemma skip_frame [simp]:
  "guest_regs (vcpu_skip_emulated_instruction n m) = guest_regs m"
  "stats (cpu_data (vcpu_skip_emulated_instruction n m)) = stats (cpu_data m)"
  "has_assists (vcpu_skip_emulated_instruction n m) = has_assists m"
  "has_flush_by_asid (vcpu_skip_emulated_instruction n m) = has_flush_by_asid m"
  by (simp_all add: vcpu_skip_emulated_instruction_def)

lemma flush_request_frame [simp]:
  "tlb_flush_request (upd_vmcb f m) = tlb_flush_request m"
  "tlb_flush_request (vcpu_skip_emulated_instruction n m) = tlb_flush_request m"
  "tlb_flush_request (vcpu_tlb_flush m) = tlb_flush_request m"
  by (simp_all add: tlb_flush_request_def vcpu_skip_emulated_instruction_def vcpu_tlb_flush_def)

lemma svm_handle_cr_result:
  assumes "svm_cr_decode ext m = Some reg"
  shows "let val = (if reg = 4 then rsp (the_vmcb m)
                    else regs_as_array (guest_regs m) ! (15 - unat reg));
             old = the_vmcb m;
             r = svm_handle_cr ext m;
             new = the_vmcb (snd r);
             lma_set = (bit val 31 \<and> bit (efer old) 8 \<and> \<not> bit (efer old) 10)
         in fst r
          \<and> cr0 new = val AND NOT X86_CR0_NW
          \<and> \<not> bit (cr0 new) 29
          \<and> tlb_control new =
              (if bit val 31 \<noteq> bit (cr0 old) 31 \<or> bit val 16 \<noteq> bit (cr0 old) 16
                  \<or> bit val 30 \<noteq> bit (cr0 old) 30 \<or> bit val 29 \<noteq> bit (cr0 old) 29
                  \<or> lma_set
               then tlb_flush_request m else tlb_control old)
          \<and> efer new = (if lma_set then efer old OR EFER_LMA else efer old)
          \<and> rip new = rip old + 3
          \<and> clean_bits new = clean_bits old AND NOT CLEAN_BITS_CRX"
proof -
  define val where "val = (if reg = 4 then rsp (the_vmcb m)
                    else regs_as_array (guest_regs m) ! (15 - unat reg))"
  define m1 where "m1 = vcpu_skip_emulated_instruction X86_INST_LEN_MOV_TO_CR m"
  define m2 where "m2 = (if (val XOR cr0 (the_vmcb m1))
                    AND (X86_CR0_PG OR X86_CR0_WP OR X86_CR0_CD OR X86_CR0_NW) \<noteq> 0
                    then vcpu_tlb_flush m1 else m1)"
  define m3 where "m3 = upd_vmcb (\<lambda>v. v\<lparr>cr0 := val AND SVM_CR0_ALLOWED_BITS\<rparr>) m2"
  define m4 where "m4 = (if val AND X86_CR0_PG \<noteq> 0 then update_efer m3 else m3)"
  define m5 where "m5 = upd_vmcb (\<lambda>v. v\<lparr>clean_bits := clean_bits v AND NOT CLEAN_BITS_CRX\<rparr>) m4"
  have r: "svm_handle_cr ext m = (True, m5)"
    using assms
    by (simp add: svm_handle_cr_def Let_def val_def m1_def m2_def m3_def m4_def m5_def)
  have v1: "the_vmcb m1 = (the_vmcb m)\<lparr>rip := rip (the_vmcb m) + 3\<rparr>"
    by (simp add: m1_def the_vmcb_skip X86_INST_LEN_MOV_TO_CR_def)
  have f1: "tlb_flush_request m1 = tlb_flush_request m"
    by (simp add: m1_def)
  have v2: "the_vmcb m2 =
      (if bit val 31 \<noteq> bit (cr0 (the_vmcb m)) 31 \<or> bit val 16 \<noteq> bit (cr0 (the_vmcb m)) 16
          \<or> bit val 30 \<noteq> bit (cr0 (the_vmcb m)) 30 \<or> bit val 29 \<noteq> bit (cr0 (the_vmcb m)) 29
       then (the_vmcb m1)\<lparr>tlb_control := tlb_flush_request m\<rparr> else the_vmcb m1)"
    by (simp add: m2_def cr0_flush_bits the_vmcb_tlb_flush f1 v1)
  have f3: "tlb_flush_request m3 = tlb_flush_request m"
    by (simp add: m3_def m2_def f1)
  have v3: "the_vmcb m3 = (the_vmcb m2)\<lparr>cr0 := val AND SVM_CR0_ALLOWED_BITS\<rparr>"
    by (simp add: m3_def)
  have e3: "efer (the_vmcb m3) = efer (the_vmcb m)"
    by (simp add: v3 v2 v1)
  have v4: "the_vmcb m4 =
      (if bit val 31 \<and> bit (efer (the_vmcb m)) 8 \<and> \<not> bit (efer (the_vmcb m)) 10
       then (the_vmcb m3)\<lparr>tlb_control := tlb_flush_request m,
                        efer := efer (the_vmcb m) OR EFER_LMA,
                        clean_bits := clean_bits (the_vmcb m3) AND NOT CLEAN_BITS_CRX\<rparr>
       else the_vmcb m3)"
    by (simp add: m4_def cr0_pg_bit the_vmcb_update_efer e3 f3)
  have v5: "the_vmcb m5 = (the_vmcb m4)\<lparr>clean_bits := clean_bits (the_vmcb m4) AND NOT CLEAN_BITS_CRX\<rparr>"
    by (simp add: m5_def)
  have nw: "\<not> bit (val AND SVM_CR0_ALLOWED_BITS) 29"
    by (rule nw_clear)
  have al: "val AND SVM_CR0_ALLOWED_BITS = val AND NOT X86_CR0_NW"
    by (simp add: SVM_CR0_ALLOWED_BITS_def)
  have c: "cr0 (the_vmcb m5) = val AND NOT X86_CR0_NW"
    by (simp add: v5 v4 v3 al)
  have nb: "\<not> bit (cr0 (the_vmcb m5)) 29"
    using nw by (simp add: c al)
  have t: "tlb_control (the_vmcb m5) =
      (if bit val 31 \<noteq> bit (cr0 (the_vmcb m)) 31 \<or> bit val 16 \<noteq> bit (cr0 (the_vmcb m)) 16
          \<or> bit val 30 \<noteq> bit (cr0 (the_vmcb m)) 30 \<or> bit val 29 \<noteq> bit (cr0 (the_vmcb m)) 29
          \<or> (bit val 31 \<and> bit (efer (the_vmcb m)) 8 \<and> \<not> bit (efer (the_vmcb m)) 10)
       then tlb_flush_request m else tlb_control (the_vmcb m))"
    by (simp add: v5 v4 v3 v2 v1)
  have e: "efer (the_vmcb m5) =
      (if bit val 31 \<and> bit (efer (the_vmcb m)) 8 \<and> \<not> bit (efer (the_vmcb m)) 10
       then efer (the_vmcb m) OR EFER_LMA else efer (the_vmcb m))"
    by (simp add: v5 v4 e3)
  have p: "rip (the_vmcb m5) = rip (the_vmcb m) + 3"
    by (simp add: v5 v4 v3 v2 v1)
  have cb: "clean_bits (the_vmcb m5) = clean_bits (the_vmcb m) AND NOT CLEAN_BITS_CRX"
    by (simp add: v5 v4 v3 v2 v1 and.assoc)
  show ?thesis
    unfolding Let_def val_def [symmetric] r fst_conv snd_conv
    using c nb t e p cb by simp
qed


lemma cr0_rewrite_values:
  "the_vmcb cr0_rewrite_machine = zero_vmcb\<lparr>exitcode := 0x65, exitinfo1 := 0x8000000000000000,
                       cr0 := 0x80000011, efer := 0x1100\<rparr>"
  "guest_regs cr0_rewrite_machine = zero_registers\<lparr>rax := 0x80000011, rcx := 0xc0000080\<rparr>"
  "has_assists cr0_rewrite_machine"
  "\<not> has_flush_by_asid cr0_rewrite_machine"
  by (simp_all add: cr0_rewrite_machine_def fresh_machine_def upd_vmcb_def the_vmcb_def)

section \<open>Entry of the exit dispatcher\<close>

lemma msr_write_efer_clean_bits:
  assumes "rcx (guest_regs m) = ucast MSR_EFER"
  shows "clean_bits (the_vmcb (snd (svm_handle_msr_write ext m)))
           = clean_bits (the_vmcb m) AND NOT CLEAN_BITS_CRX"
proof -
  have notx2: "\<not> (ucast MSR_EFER :: u64) \<le> MSR_X2APIC_END"
    by (simp add: MSR_EFER_def MSR_X2APIC_END_def)
  show ?thesis
    using assms
    by (simp add: notx2 svm_handle_msr_write_def Let_def the_vmcb_skip the_vmcb_tlb_flush)
qed

lemma handle_cr_clean_bits:
  assumes "fst (svm_handle_cr ext m)"
  shows "clean_bits (the_vmcb (snd (svm_handle_cr ext m)))
           = clean_bits (the_vmcb m) AND NOT CLEAN_BITS_CRX"
proof (cases "svm_cr_decode ext m")
  case None
  with assms show ?thesis by (simp add: svm_handle_cr_def)
next
  case (Some reg)
  from svm_handle_cr_result [OF Some] show ?thesis by (simp add: Let_def)
qed

text \<open>
  Against C2 as stated: after the statements in front of the \<open>switch\<close> the cached guest
  state is not marked dirty. All clean bits are set, which tells the processor that the
  state is unmodified.
\<close>

theorem vcpu_handle_exit_entry_clean_counterexample:
  "\<not> all_state_dirty (the_vmcb (vcpu_handle_exit_entry fresh_machine))"
  by (simp add: entry_frame all_state_dirty_def)

text \<open>
  C2, as the code has it. On every invocation the dispatcher runs its \<open>switch\<close> on the
  machine in which the total-exit counter has been incremented by one (modulo \<open>2^32\<close>)
  and all 32 clean bits have been set, the rest of the control block being as the
  processor left it: the whole cached guest state is marked clean, that is unmodified.
  The emulators then clear the clean bit of what they modify: after a handled write to
  CR0 and after a write to EFER exactly the clean bit of the control registers is
  cleared.
\<close>

theorem vcpu_handle_exit_entry_effect:
  "let m1 = vcpu_handle_exit_entry m in
     vcpu_handle_exit ext m = vcpu_handle_exit_switch ext m1
   \<and> stats (cpu_data m1) JAILHOUSE_CPU_STAT_VMEXITS_TOTAL
       = stats (cpu_data m) JAILHOUSE_CPU_STAT_VMEXITS_TOTAL + 1
   \<and> clean_bits (the_vmcb m1) = 0xffffffff
   \<and> the_vmcb m1 = (the_vmcb m)\<lparr>clean_bits := 0xffffffff\<rparr>
   \<and> (fst (svm_handle_cr ext m1) \<longrightarrow>
        clean_bits (the_vmcb (snd (svm_handle_cr ext m1))) = 0xffffffff AND NOT CLEAN_BITS_CRX)
   \<and> (rcx (guest_regs m1) = ucast MSR_EFER \<longrightarrow>
        clean_bits (the_vmcb (snd (svm_handle_msr_write ext m1)))
          = 0xffffffff AND NOT CLEAN_BITS_CRX)"
  by (simp add: Let_def vcpu_handle_exit_def entry_frame handle_cr_clean_bits
      msr_write_efer_clean_bits)

theorem vcpu_handle_exit_entry_effect_witness:
  "stats (cpu_data (vcpu_handle_exit_entry cr0_rewrite_machine))
       JAILHOUSE_CPU_STAT_VMEXITS_TOTAL = 1
   \<and> clean_bits (the_vmcb (vcpu_handle_exit_entry cr0_rewrite_machine)) = 0xffffffff
   \<and> fst (svm_handle_cr idle_collaborators (vcpu_handle_exit_entry cr0_rewrite_machine))
   \<and> clean_bits (the_vmcb (snd (svm_handle_cr idle_collaborators
         (vcpu_handle_exit_entry cr0_rewrite_machine)))) = 0xffffffdf
   \<and> rcx (guest_regs (vcpu_handle_exit_entry cr0_rewrite_machine)) = ucast MSR_EFER
   \<and> clean_bits (the_vmcb (snd (svm_handle_msr_write idle_collaborators
         (vcpu_handle_exit_entry cr0_rewrite_machine)))) = 0xffffffdf"
proof -
  have d: "svm_cr_decode idle_collaborators (vcpu_handle_exit_entry cr0_rewrite_machine) = Some 0"
    by (simp add: svm_cr_decode_def entry_frame cr0_rewrite_values)
  have h1: "fst (svm_handle_cr idle_collaborators (vcpu_handle_exit_entry cr0_rewrite_machine))"
    by (simp add: svm_handle_cr_def d Let_def)
  have h2: "rcx (guest_regs (vcpu_handle_exit_entry cr0_rewrite_machine)) = ucast MSR_EFER"
    by (simp add: entry_frame cr0_rewrite_values MSR_EFER_def)
  have s0: "stats (cpu_data cr0_rewrite_machine) JAILHOUSE_CPU_STAT_VMEXITS_TOTAL = 0"
    by (simp add: cr0_rewrite_machine_def fresh_machine_def upd_vmcb_def)
  show ?thesis
    using vcpu_handle_exit_entry_effect [of cr0_rewrite_machine idle_collaborators] h1 h2 s0
    by (simp add: Let_def CLEAN_BITS_CRX_def)
qed

section \<open>The statistics file of the driver\<close>

lemma uint_scast_positive:
  fixes v :: u32
  assumes "0 <s v"
  shows "uint (scast v :: u64) = sint v"
proof -
  have pos: "0 < sint v" using assms by (simp add: word_sless_alt)
  have lt: "sint v < 2 ^ 31" using sint_lt [of v] by simp
  have "uint (scast v :: u64) = take_bit 64 (sint v)"
    unfolding scast_eq uint_word_of_int_eq by simp
  also have "\<dots> = sint v"
    using pos lt by (simp add: take_bit_int_eq_self)
  finally show ?thesis .
qed

lemma stats_sum_uint:
  "uint acc + int (length cpus) * 2 ^ 31 \<le> 2 ^ 64 \<Longrightarrow>
   uint (stats_sum hc code cpus acc)
     = uint acc + (\<Sum>cpu\<leftarrow>cpus. max 0 (sint (hc JAILHOUSE_HC_CPU_GET_INFO cpu code)))"
proof (induction cpus arbitrary: acc)
  case Nil
  then show ?case by simp
next
  case (Cons cpu cpus)
  let ?v = "hc JAILHOUSE_HC_CPU_GET_INFO cpu code"
  let ?acc = "if 0 <s ?v then acc + scast ?v else acc"
  have bound: "uint acc + 2 ^ 31 + int (length cpus) * 2 ^ 31 \<le> 2 ^ 64"
    using Cons.prems by (simp add: algebra_simps)
  have lt: "sint ?v < 2 ^ 31" using sint_lt [of ?v] by simp
  have step: "uint ?acc = uint acc + max 0 (sint ?v)"
  proof (cases "0 <s ?v")
    case True
    then have pos: "0 < sint ?v" by (simp add: word_sless_alt)
    have "uint acc + uint (scast ?v :: u64) < 2 ^ 64"
      using bound lt by (simp add: uint_scast_positive [OF True])
    then have "uint (acc + scast ?v) = uint acc + uint (scast ?v :: u64)"
      by (simp add: uint_add_lem [THEN iffD1])
    with True pos show ?thesis by (simp add: uint_scast_positive)
  next
    case False
    then have "\<not> 0 < sint ?v" by (simp add: word_sless_alt)
    with False show ?thesis by simp
  qed
  have "uint ?acc + int (length cpus) * 2 ^ 31 \<le> 2 ^ 64"
    using bound lt step by simp
  from Cons.IH [OF this] step show ?case
    by (simp add: Let_def)
qed

lemma distinct_cpus_length:
  fixes cpus :: "u32 list"
  assumes "distinct cpus"
  shows "length cpus \<le> 2 ^ 32"
proof -
  have "length cpus = card (set cpus)"
    using assms by (simp add: distinct_card)
  also have "\<dots> \<le> card (UNIV :: u32 set)"
    by (rule card_mono) simp_all
  also have "\<dots> = 2 ^ 32"
    by (simp add: card_word)
  finally show ?thesis .
qed

lemma stats_sum_total:
  assumes "distinct cpus"
  shows "uint (stats_sum hc code cpus 0)
     = (\<Sum>cpu\<leftarrow>cpus. max 0 (sint (hc JAILHOUSE_HC_CPU_GET_INFO cpu code)))"
proof -
  have "int (length cpus) \<le> 2 ^ 32"
    using distinct_cpus_length [OF assms] by (metis of_nat_le_iff of_nat_numeral of_nat_power)
  then have "int (length cpus) * 2 ^ 31 \<le> 2 ^ 32 * 2 ^ 31"
    by (rule mult_right_mono) simp
  then have "uint (0::u64) + int (length cpus) * 2 ^ 31 \<le> 2 ^ 64"
    by simp
  from stats_sum_uint [OF this] show ?thesis by simp
qed

lemma sum_positive_filter:
  "(\<Sum>x\<leftarrow>xs. max 0 (f x)) = (\<Sum>x\<leftarrow>filter (\<lambda>x. 0 < f x) xs. (f x :: int))"
  by (induction xs) auto


text \<open>
  C8. In the statistics read of the driver a CPU whose hypercall returns zero or a
  negative value adds nothing: the text left in the buffer is the decimal number of the
  sum of the positive values alone, followed by a newline, and the value returned is the
  length of that text, which is positive, so that no error reaches the reader. The
  assigned CPUs are the distinct CPU numbers of the cell's CPU mask.
\<close>

theorem stats_show_skips_failed_cpus:
  assumes "distinct cpus"
  shows "let code = JAILHOUSE_CPU_INFO_STAT_BASE + attr_code;
             positive = filter (\<lambda>cpu. 0 < sint (hc JAILHOUSE_HC_CPU_GET_INFO cpu code)) cpus;
             total = (\<Sum>cpu\<leftarrow>positive. sint (hc JAILHOUSE_HC_CPU_GET_INFO cpu code))
         in snd (stats_show hc attr_code cpus) = decimal (nat total) @ [CHR 0x0A]
          \<and> fst (stats_show hc attr_code cpus) = int (length (decimal (nat total))) + 1
          \<and> 0 < fst (stats_show hc attr_code cpus)"
proof -
  define code where "code = JAILHOUSE_CPU_INFO_STAT_BASE + attr_code"
  have "unat (stats_sum hc code cpus 0) = nat (uint (stats_sum hc code cpus 0))"
    by simp
  also have "\<dots> = nat (\<Sum>cpu\<leftarrow>filter (\<lambda>cpu. 0 < sint (hc JAILHOUSE_HC_CPU_GET_INFO cpu code)) cpus.
                       sint (hc JAILHOUSE_HC_CPU_GET_INFO cpu code))"
    by (simp only: stats_sum_total [OF assms] sum_positive_filter)
  finally show ?thesis
    by (simp add: stats_show_def Let_def code_def)
qed

theorem stats_show_skips_failed_cpus_witness:
  "distinct [0, 1, 2, 3 :: u32]
   \<and> stats_show sample_hypercall 0 [0, 1, 2, 3] = (3, ''12'' @ [CHR 0x0A])"
proof -
  have d: "distinct [0, 1, 2, 3 :: u32]" by simp
  have dec: "decimal 12 = ''12''"
    by code_simp
  show ?thesis
    using stats_show_skips_failed_cpus [OF d, where hc = sample_hypercall and attr_code = 0] d
    by (simp add: Let_def sample_hypercall_def JAILHOUSE_HC_CPU_GET_INFO_def
        JAILHOUSE_CPU_INFO_STAT_BASE_def dec prod_eq_iff)
qed

section \<open>The exit counters\<close>



text \<open>Whatever the width of an unsigned counter, the increment at its maximum gives
  zero, which is below the maximum.\<close>

lemma increment_wraps_at_any_width: "(- 1 :: 'a::len word) + 1 < - 1"
  by (simp add: word_gt_0)

lemma stats_write_msr [simp]: "stats (cpu_data (write_msr r v m)) = stats (cpu_data m)"
  by (simp add: write_msr_def)

lemma stats_tlb_flush [simp]: "stats (cpu_data (vcpu_tlb_flush m)) = stats (cpu_data m)"
  by (simp add: vcpu_tlb_flush_def)

lemma stats_update_efer [simp]: "stats (cpu_data (update_efer m)) = stats (cpu_data m)"
  by (simp add: update_efer_def Let_def)

lemma stats_vcpu_reset [simp]: "stats (cpu_data (svm_vcpu_reset v m)) = stats (cpu_data m)"
  by (simp add: svm_vcpu_reset_def Let_def)























section \<open>Mapping a memory region\<close>

lemma unat_page_offset: "unat ((a::u64) AND 0xfff) = unat a mod 4096"
proof -
  have eq: "(0xfff :: u64) = mask 12" by (simp add: mask_eq_exp_minus_1)
  show ?thesis
    unfolding eq by (simp add: take_bit_eq_mask [symmetric] unsigned_take_bit_eq take_bit_eq_mod unat_mod_distrib)
qed

lemma aligned_iff: "((a::u64) AND 0xfff = 0) = (4096 dvd unat a)"
proof -
  have eq: "(0xfff :: u64) = mask 12" by (simp add: mask_eq_exp_minus_1)
  show ?thesis
    unfolding eq using and_mask_dvd_nat [of 12 a] by simp
qed

lemma split_address:
  fixes gphys virt :: u64
  assumes al: "virt AND 0xfff = 0" and le: "virt \<le> gphys"
  shows "gphys - virt = of_nat ((unat gphys div 4096 - unat virt div 4096) * 4096) + (gphys AND 0xfff)"
proof -
  have vdiv: "unat virt = unat virt div 4096 * 4096"
    using al by (simp add: aligned_iff)
  have le': "unat virt \<le> unat gphys"
    using le by (simp add: word_le_nat_alt)
  then have fle: "unat virt div 4096 \<le> unat gphys div 4096"
    by (rule div_le_mono)
  have g: "unat gphys = unat gphys div 4096 * 4096 + unat gphys mod 4096"
    by simp
  have "unat gphys - unat virt
      = (unat gphys div 4096 - unat virt div 4096) * 4096 + unat gphys mod 4096"
    using vdiv fle g by (simp add: diff_mult_distrib) 
  moreover have "gphys - virt = of_nat (unat gphys - unat virt)"
    using le' by simp
  moreover have "gphys AND 0xfff = of_nat (unat gphys mod 4096)"
    by (metis unat_page_offset of_nat_unat ucast_id)
  ultimately show ?thesis by simp
qed


lemma region_flags_bits:
  "(region_flags mem AND PAGE_FLAG_PRESENT \<noteq> 0) = (flags mem AND JAILHOUSE_MEM_READ \<noteq> 0)"
  "(region_flags mem AND PAGE_FLAG_RW \<noteq> 0) = (flags mem AND JAILHOUSE_MEM_WRITE \<noteq> 0)"
  "(region_flags mem AND PAGE_FLAG_NOEXECUTE \<noteq> 0) = (flags mem AND JAILHOUSE_MEM_EXECUTE = 0)"
  "region_flags mem AND PAGE_FLAG_US \<noteq> 0"
  by (simp_all add: region_flags_def PAGE_FLAG_US_def PAGE_FLAG_PRESENT_def PAGE_FLAG_RW_def
      PAGE_FLAG_NOEXECUTE_def)

lemma paging_create_entry:
  assumes ok: "paging_create pt phys sz virt fl = Inr pt'"
    and al: "virt AND 0xfff = 0" "sz AND 0xfff = 0"
    and le: "virt \<le> gphys" and lt: "unat gphys < unat virt + unat sz"
  shows "pt' (frame_of gphys)
     = Some \<lparr>host_page = phys + of_nat ((frame_of gphys - frame_of virt) * 4096),
             entry_flags = fl\<rparr>"
proof -
  have v: "unat virt = frame_of virt * 4096"
    using al(1) by (simp add: aligned_iff frame_of_def)
  have s: "unat sz = unat sz div 4096 * 4096"
    using al(2) by (simp add: aligned_iff)
  have "unat virt \<le> unat gphys"
    using le by (simp add: word_le_nat_alt)
  then have lo: "frame_of virt \<le> frame_of gphys"
    unfolding frame_of_def by (rule div_le_mono)
  have "unat gphys < (frame_of virt + unat sz div 4096) * 4096"
    using lt v s by (simp add: add_mult_distrib)
  then have hi: "frame_of gphys < frame_of virt + unat sz div 4096"
    unfolding frame_of_def by (simp add: less_mult_imp_div_less)
  from ok have "pt' = (\<lambda>f. if frame_of virt \<le> f \<and> f < frame_of virt + unat sz div 4096
                     then Some \<lparr>host_page = phys + of_nat ((f - frame_of virt) * 4096),
                                entry_flags = fl\<rparr>
                     else pt f)"
    by (simp add: paging_create_def Let_def split: if_splits)
  with lo hi show ?thesis by simp
qed

lemma map_region_flags:
  "vcpu_map_memory_region c mem =
     (case paging_create (npt_structs c) (region_host_start c mem) (mem_size mem)
             (virt_start mem) (region_flags mem) of
        Inl e \<Rightarrow> Inl e
      | Inr pt \<Rightarrow> Inr (c\<lparr>npt_structs := pt\<rparr>))"
  by (simp add: vcpu_map_memory_region_def Let_def region_flags_def region_host_start_def
      or.assoc)

text \<open>
  C4. After a successful \<open>vcpu_map_memory_region\<close>, for any combination of the read,
  write and execute flags of the region and any address in its (page-aligned) range, the
  entry of the page has the present bit exactly when read was requested, the writable
  bit exactly when write was requested, the no-execute bit exactly when execute was not
  requested, and the user bit always; and the translation query for the address gives
  the host-physical address that lies as far into the host range as the address lies
  into the guest range, with the permission encoding of that entry.
\<close>

theorem vcpu_map_memory_region_translation:
  assumes ok: "vcpu_map_memory_region c mem = Inr c'"
    and al: "virt_start mem AND PAGE_OFFS_MASK = 0" "mem_size mem AND PAGE_OFFS_MASK = 0"
    and le: "virt_start mem \<le> gphys"
    and lt: "unat gphys < unat (virt_start mem) + unat (mem_size mem)"
  shows "\<exists>e. npt_structs c' (frame_of gphys) = Some e
          \<and> (entry_flags e AND PAGE_FLAG_PRESENT \<noteq> 0) = (flags mem AND JAILHOUSE_MEM_READ \<noteq> 0)
          \<and> (entry_flags e AND PAGE_FLAG_RW \<noteq> 0) = (flags mem AND JAILHOUSE_MEM_WRITE \<noteq> 0)
          \<and> (entry_flags e AND PAGE_FLAG_NOEXECUTE \<noteq> 0)
               = (flags mem AND JAILHOUSE_MEM_EXECUTE = 0)
          \<and> entry_flags e AND PAGE_FLAG_US \<noteq> 0
          \<and> paging_query (npt_structs c') gphys
               = Some (region_host_start c mem + (gphys - virt_start mem), entry_flags e)"
proof -
  from ok obtain pt where
    pc: "paging_create (npt_structs c) (region_host_start c mem) (mem_size mem)
             (virt_start mem) (region_flags mem) = Inr pt"
    and c': "c' = c\<lparr>npt_structs := pt\<rparr>"
    by (auto simp add: map_region_flags split: sum.splits)
  have al': "virt_start mem AND 0xfff = 0" "mem_size mem AND 0xfff = 0"
    using al by (simp_all add: PAGE_OFFS_MASK_def)
  have e: "pt (frame_of gphys)
     = Some \<lparr>host_page = region_host_start c mem
                 + of_nat ((frame_of gphys - frame_of (virt_start mem)) * 4096),
             entry_flags = region_flags mem\<rparr>"
    by (rule paging_create_entry [OF pc al' le lt])
  have sp: "gphys - virt_start mem
      = of_nat ((frame_of gphys - frame_of (virt_start mem)) * 4096) + (gphys AND 0xfff)"
    unfolding frame_of_def by (rule split_address [OF al'(1) le])
  have "paging_query pt gphys
      = Some (region_host_start c mem
                + of_nat ((frame_of gphys - frame_of (virt_start mem)) * 4096)
                + (gphys AND 0xfff), region_flags mem)"
    by (simp add: paging_query_def e PAGE_OFFS_MASK_def)
  then have q: "paging_query pt gphys
      = Some (region_host_start c mem + (gphys - virt_start mem), region_flags mem)"
    by (simp only: sp add.assoc)
  show ?thesis
    using e q region_flags_bits [of mem] by (simp add: c')
qed

theorem vcpu_map_memory_region_translation_witness:
  "vcpu_map_memory_region empty_cell ram_region
     = Inr (empty_cell\<lparr>npt_structs := (\<lambda>f. if f = 1
          then Some \<lparr>host_page = 0x2000, entry_flags = 0x8000000000000007\<rparr> else None)\<rparr>)
   \<and> virt_start ram_region AND PAGE_OFFS_MASK = 0
   \<and> mem_size ram_region AND PAGE_OFFS_MASK = 0
   \<and> virt_start ram_region \<le> 0x1500
   \<and> unat (0x1500 :: u64) < unat (virt_start ram_region) + unat (mem_size ram_region)
   \<and> paging_query (\<lambda>f. if f = 1
          then Some \<lparr>host_page = 0x2000, entry_flags = 0x8000000000000007\<rparr> else None) 0x1500
        = Some (0x2500, 0x8000000000000007)
   \<and> paging_query (\<lambda>f. if f = 1
          then Some \<lparr>host_page = 0x2000, entry_flags = 0x8000000000000007\<rparr> else None) 0x3000
        = None"
proof -
  have ok: "vcpu_map_memory_region empty_cell ram_region
     = Inr (empty_cell\<lparr>npt_structs := (\<lambda>f. if f = 1
          then Some \<lparr>host_page = 0x2000, entry_flags = 0x8000000000000007\<rparr> else None)\<rparr>)"
    by (auto simp add: vcpu_map_memory_region_def paging_create_def Let_def ram_region_def
        empty_cell_def frame_of_def JAILHOUSE_MEM_READ_def JAILHOUSE_MEM_WRITE_def
        JAILHOUSE_MEM_EXECUTE_def JAILHOUSE_MEM_COMM_REGION_def PAGE_FLAG_US_def
        PAGE_FLAG_PRESENT_def PAGE_FLAG_RW_def PAGE_FLAG_NOEXECUTE_def fun_eq_iff)
  have al: "virt_start ram_region AND PAGE_OFFS_MASK = 0"
      "mem_size ram_region AND PAGE_OFFS_MASK = 0"
    by (simp_all add: ram_region_def PAGE_OFFS_MASK_def)
  have le: "virt_start ram_region \<le> 0x1500"
    by (simp add: ram_region_def)
  have lt: "unat (0x1500 :: u64) < unat (virt_start ram_region) + unat (mem_size ram_region)"
    by (simp add: ram_region_def)
  have host: "region_host_start empty_cell ram_region = 0x2000"
    by (simp add: region_host_start_def ram_region_def JAILHOUSE_MEM_COMM_REGION_def)
  have far: "paging_query (\<lambda>f. if f = 1
          then Some \<lparr>host_page = 0x2000, entry_flags = 0x8000000000000007\<rparr> else None) 0x3000
        = None"
    by (simp add: paging_query_def frame_of_def)
  have vs: "virt_start ram_region = 0x1000"
    by (simp add: ram_region_def)
  let ?pt = "\<lambda>f::nat. if f = 1
          then Some \<lparr>host_page = 0x2000, entry_flags = 0x8000000000000007\<rparr> else None"
  from vcpu_map_memory_region_translation [OF ok al le lt]
  obtain e where e: "?pt (frame_of 0x1500) = Some e"
    and q: "paging_query ?pt 0x1500
              = Some (region_host_start empty_cell ram_region + (0x1500 - virt_start ram_region),
                      entry_flags e)"
    by auto
  from e have "entry_flags e = 0x8000000000000007"
    by (auto simp add: frame_of_def split: if_splits)
  with q have "paging_query ?pt 0x1500 = Some (0x2500, 0x8000000000000007)"
    by (simp add: host vs)
  then show ?thesis
    using ok al le lt far by simp
qed

section \<open>Decoding a move to a control register\<close>

lemma crossing_values:
  "the_vmcb crossing_machine = zero_vmcb\<lparr>exitcode := 0x65, cr0 := 0x10, rip := 0x1fff\<rparr>"
  by (simp add: crossing_machine_def fresh_machine_def upd_vmcb_def the_vmcb_def)

lemma crossing_pg:
  "vcpu_get_guest_paging_structs crossing_machine
     = Some \<lparr>root_paging = realmode_paging, root_table_gphys = 0xff000\<rparr>"
  by (simp add: vcpu_get_guest_paging_structs_def crossing_values zero_vmcb_def Let_def
      EFER_LMA_def X86_CR0_PG_def)

lemma page_of_1fff: "(0x1fff :: u64) AND NOT PAGE_OFFS_MASK = 0x1000"
   "(0x1fff :: u64) AND PAGE_OFFS_MASK = 0xfff"
   "(0x2000 :: u64) AND NOT PAGE_OFFS_MASK = 0x2000"
   "(0x2000 :: u64) AND PAGE_OFFS_MASK = 0"
   "(0x2001 :: u64) AND NOT PAGE_OFFS_MASK = 0x2000"
   "(0x2001 :: u64) AND PAGE_OFFS_MASK = 1"
  by (simp_all add: PAGE_OFFS_MASK_def)

text \<open>
  C6 at an instruction that crosses a page boundary. The guest's bytes at 0x1fff, 0x2000
  and 0x2001 are 0f 22 c0, a move of \<open>rax\<close> to CR0, and both pages can be mapped; the
  helper maps the first page only, reads the second opcode byte and the ModRM byte behind
  the end of that mapping, and reports no match. With the second page unmappable and the
  bytes 22 c3 behind the mapping it reports a match with source register 3.
\<close>

theorem x86_parse_mov_to_cr_page_crossing:
  "guest_byte crossing_pages \<lparr>root_paging = realmode_paging, root_table_gphys = 0xff000\<rparr> 0x1fff
     = Some 0x0f
   \<and> guest_byte crossing_pages \<lparr>root_paging = realmode_paging, root_table_gphys = 0xff000\<rparr> 0x2000
     = Some 0x22
   \<and> guest_byte crossing_pages \<lparr>root_paging = realmode_paging, root_table_gphys = 0xff000\<rparr> 0x2001
     = Some 0xc0
   \<and> x86_parse_mov_to_cr crossing_pages crossing_machine 0x1fff 0 = None
   \<and> guest_byte last_page_only \<lparr>root_paging = realmode_paging, root_table_gphys = 0xff000\<rparr> 0x2000
     = None
   \<and> x86_parse_mov_to_cr last_page_only crossing_machine 0x1fff 0 = Some 3"
  by (simp add: guest_byte_def page_of_1fff crossing_pages_def last_page_only_def
      x86_parse_mov_to_cr_def crossing_pg crossing_values zero_vmcb_def zero_segment_def
      EFER_LMA_def ctx_advance_def vcpu_map_inst_def Let_def PAGE_SIZE_def deref_def
      ptr_inc_def)


lemma bytes_avail_bounds:
  "1 \<le> unat (PAGE_SIZE - (a AND PAGE_OFFS_MASK))"
  "unat (PAGE_SIZE - (a AND PAGE_OFFS_MASK)) = 4096 - unat (a AND PAGE_OFFS_MASK)"
proof -
  have "a AND PAGE_OFFS_MASK \<le> PAGE_OFFS_MASK"
    by (rule word_and_le1)
  then have le: "unat (a AND PAGE_OFFS_MASK) \<le> 4095"
    by (simp add: word_le_nat_alt PAGE_OFFS_MASK_def)
  then have "a AND PAGE_OFFS_MASK \<le> PAGE_SIZE"
    by (simp add: word_le_nat_alt PAGE_SIZE_def)
  then show eq: "unat (PAGE_SIZE - (a AND PAGE_OFFS_MASK)) = 4096 - unat (a AND PAGE_OFFS_MASK)"
    by (simp add: unat_sub PAGE_SIZE_def)
  show "1 \<le> unat (PAGE_SIZE - (a AND PAGE_OFFS_MASK))"
    using le by (simp add: eq)
qed

lemma mapped_size_nonzero:
  "(if PAGE_SIZE - (a AND PAGE_OFFS_MASK) < ucast (2 :: u32)
    then ucast (PAGE_SIZE - (a AND PAGE_OFFS_MASK)) else (2 :: u32)) \<noteq> 0"
proof (cases "PAGE_SIZE - (a AND PAGE_OFFS_MASK) < ucast (2 :: u32)")
  case True
  then have "unat (PAGE_SIZE - (a AND PAGE_OFFS_MASK)) < 2"
    by (simp add: word_less_nat_alt)
  with bytes_avail_bounds(1) [of a] have "unat (PAGE_SIZE - (a AND PAGE_OFFS_MASK)) = 1"
    by simp
  then have "PAGE_SIZE - (a AND PAGE_OFFS_MASK) = 1"
    by (metis unat_1 word_unat_eq_iff)
  with True show ?thesis by simp
next
  case False
  then show ?thesis by simp
qed

lemma first_ctx_advance:
  assumes "gp pg ((cb + pc) AND NOT PAGE_OFFS_MASK) = Some w"
  shows "\<exists>ctx pc'. ctx_advance gp \<lparr>remaining = 2, size_ctx = 0, cs_base = cb, inst = None\<rparr> pc pg
           = (True, ctx, pc')
         \<and> size_ctx ctx \<noteq> 0
         \<and> inst ctx = Some \<lparr>window = w, pos = unat ((cb + pc) AND PAGE_OFFS_MASK)\<rparr>"
  using assms mapped_size_nonzero [of "cb + pc"]
  by (simp add: ctx_advance_def vcpu_map_inst_def Let_def split: if_splits)

lemma later_ctx_advance:
  "size_ctx ctx \<noteq> 0 \<Longrightarrow> ctx_advance gp ctx pc pg = (True, ctx, pc)"
  by (simp add: ctx_advance_def)

lemma x86_parse_mov_to_cr_reads:
  assumes pg: "vcpu_get_guest_paging_structs m = Some pg"
    and a: "a = (if efer (the_vmcb m) AND EFER_LMA \<noteq> 0 then 0 else base (cs (the_vmcb m))) + pc"
    and page: "gp pg (a AND NOT PAGE_OFFS_MASK) = Some w"
  shows "x86_parse_mov_to_cr gp m pc reg =
     (let off = unat (a AND PAGE_OFFS_MASK); modrm = w (off + 2)
      in if w off = 0x0f \<and> w (off + 1) = 0x22 \<and> drop_bit 3 (modrm AND 0x38) = reg
         then Some (ucast (modrm AND 0x7)) else None)"
proof -
  define cb where "cb = (if efer (the_vmcb m) AND EFER_LMA \<noteq> 0 then 0 else base (cs (the_vmcb m)))"
  have a': "a = cb + pc" by (simp add: a cb_def)
  from first_ctx_advance [of gp pg cb pc w] page
  obtain ctx pc' where
    adv: "ctx_advance gp \<lparr>remaining = 2, size_ctx = 0, cs_base = cb, inst = None\<rparr> pc pg
           = (True, ctx, pc')"
    and nz: "size_ctx ctx \<noteq> 0"
    and ptr: "inst ctx = Some \<lparr>window = w, pos = unat (a AND PAGE_OFFS_MASK)\<rparr>"
    by (auto simp add: a')
  show ?thesis
    by (simp add: x86_parse_mov_to_cr_def pg Let_def cb_def [symmetric] adv ptr nz
        later_ctx_advance deref_def ptr_inc_def)
qed


lemma page_base_shift: "(a::u64) AND NOT 0xfff = push_bit 12 (drop_bit 12 a)"
proof -
  have eq: "(0xfff :: u64) = mask 12" by (simp add: mask_eq_exp_minus_1)
  show ?thesis
    unfolding eq
    by (rule bit_word_eqI)
      (auto simp add: bit_and_iff bit_not_iff bit_mask_iff bit_push_bit_iff bit_drop_bit_eq)
qed

lemma same_page:
  fixes a :: u64
  assumes "unat a mod 4096 + k < 4096"
  shows "(a + of_nat k) AND NOT 0xfff = a AND NOT 0xfff"
    and "unat ((a + of_nat k) AND 0xfff) = unat a mod 4096 + k"
proof -
  define q where "q = unat a div 4096"
  define r where "r = unat a mod 4096"
  have a_eq: "unat a = q * 4096 + r"
    by (simp add: q_def r_def)
  have rk: "r + k < 4096"
    using assms by (simp add: r_def)
  have k: "k < 4096" using rk by simp
  have lt: "q * 4096 + r < 2 ^ 52 * 4096"
    using unsigned_less [of a, where ?'a = nat] by (simp add: a_eq)
  have "q < 2 ^ 52"
  proof (rule ccontr)
    assume "\<not> q < 2 ^ 52"
    then have "2 ^ 52 \<le> q" by simp
    then have "2 ^ 52 * 4096 \<le> q * 4096" by (rule mult_le_mono1)
    with lt show False by linarith
  qed
  then have "q + 1 \<le> 2 ^ 52" by simp
  then have "(q + 1) * 4096 \<le> 2 ^ 52 * 4096"
    by (rule mult_le_mono1)
  then have "q * 4096 + 4096 \<le> 2 ^ 52 * 4096"
    by (simp only: add_mult_distrib mult_1)
  with rk have "q * 4096 + r + k < 2 ^ 52 * 4096"
    by linarith
  then have nov: "unat a + k < 2 ^ 64"
    by (simp add: a_eq)
  have uk: "unat (of_nat k :: u64) = k"
    using k by (simp add: unat_of_nat take_bit_nat_eq_self)
  have sum: "unat (a + of_nat k) = q * 4096 + (r + k)"
    using nov uk by (simp add: unat_add_lem [THEN iffD1] a_eq)
  have d: "(q * 4096 + (r + k)) div 4096 = q"
    using rk by simp
  have m: "(q * 4096 + (r + k)) mod 4096 = r + k"
    using rk by simp
  have "unat (a + of_nat k) div 4096 = q"
    by (simp only: sum d)
  then have dd: "unat (a + of_nat k) div 4096 = unat a div 4096"
    by (simp only: q_def)
  have "drop_bit 12 (a + of_nat k) = drop_bit 12 a"
    by (rule word_unat_eq_iff [THEN iffD2])
       (simp add: drop_bit_eq_div unat_div dd)
  then show "(a + of_nat k) AND NOT 0xfff = a AND NOT 0xfff"
    by (simp only: page_base_shift)
  have "unat ((a + of_nat k) AND 0xfff) = r + k"
    by (simp only: unat_page_offset sum m)
  then show "unat ((a + of_nat k) AND 0xfff) = unat a mod 4096 + k"
    by (simp only: r_def)
qed


lemma guest_byte_same_page:
  assumes page: "gp pg (a AND NOT PAGE_OFFS_MASK) = Some w"
    and fit: "unat (a AND PAGE_OFFS_MASK) + k < 4096"
  shows "guest_byte gp pg (a + of_nat k) = Some (w (unat (a AND PAGE_OFFS_MASK) + k))"
proof -
  have fit': "unat a mod 4096 + k < 4096"
    using fit by (simp add: PAGE_OFFS_MASK_def unat_page_offset)
  have b: "(a + of_nat k) AND NOT PAGE_OFFS_MASK = a AND NOT PAGE_OFFS_MASK"
    unfolding PAGE_OFFS_MASK_def by (rule same_page(1) [OF fit'])
  have "unat ((a + of_nat k) AND 0xfff) = unat a mod 4096 + k"
    by (rule same_page(2) [OF fit'])
  then have o: "unat ((a + of_nat k) AND PAGE_OFFS_MASK) = unat (a AND PAGE_OFFS_MASK) + k"
    unfolding PAGE_OFFS_MASK_def by (simp only: unat_page_offset [of a])
  show ?thesis
    by (simp only: guest_byte_def b o page option.map)
qed

text \<open>
  What the helper does when the three bytes of the instruction lie in one page: it
  matches exactly when the bytes are 0f 22 and bits 5:3 of the ModRM byte are the expected
  control register, and gives bits 2:0 as the source register; it reports no match when
  the first byte is anything else, when the page cannot be mapped or when the paging mode
  is not supported.
\<close>

lemma x86_parse_mov_to_cr_within_page:
  assumes pg: "vcpu_get_guest_paging_structs m = Some pg"
    and a: "a = (if efer (the_vmcb m) AND EFER_LMA \<noteq> 0 then 0 else base (cs (the_vmcb m))) + pc"
    and fit: "unat (a AND PAGE_OFFS_MASK) + 2 < 4096"
    and b0: "guest_byte gp pg a = Some 0x0f"
    and b1: "guest_byte gp pg (a + 1) = Some 0x22"
    and b2: "guest_byte gp pg (a + 2) = Some modrm"
  shows "x86_parse_mov_to_cr gp m pc reg =
     (if drop_bit 3 (modrm AND 0x38) = reg then Some (ucast (modrm AND 0x7)) else None)"
proof -
  from b0 obtain w where page: "gp pg (a AND NOT PAGE_OFFS_MASK) = Some w"
    by (auto simp add: guest_byte_def)
  have w0: "w (unat (a AND PAGE_OFFS_MASK)) = 0x0f"
    using b0 by (simp add: guest_byte_def page)
  have "guest_byte gp pg (a + of_nat 1) = Some (w (unat (a AND PAGE_OFFS_MASK) + 1))"
    using fit page by (intro guest_byte_same_page [where gp = gp and pg = pg and w = w]) simp_all
  with b1 have w1: "w (unat (a AND PAGE_OFFS_MASK) + 1) = 0x22"
    by simp
  have "guest_byte gp pg (a + of_nat 2) = Some (w (unat (a AND PAGE_OFFS_MASK) + 2))"
    using fit page by (intro guest_byte_same_page [where gp = gp and pg = pg and w = w]) simp_all
  with b2 have w2: "w (unat (a AND PAGE_OFFS_MASK) + 2) = modrm"
    by simp
  show ?thesis
    using x86_parse_mov_to_cr_reads [where gp = gp and pg = pg and w = w and m = m and a = a
        and pc = pc and reg = reg, OF pg a page] w0 w1 w2
    by (simp add: Let_def)
qed

lemma x86_parse_mov_to_cr_other_opcode:
  assumes pg: "vcpu_get_guest_paging_structs m = Some pg"
    and a: "a = (if efer (the_vmcb m) AND EFER_LMA \<noteq> 0 then 0 else base (cs (the_vmcb m))) + pc"
    and b0: "guest_byte gp pg a = Some b" and other: "b \<noteq> 0x0f"
  shows "x86_parse_mov_to_cr gp m pc reg = None"
proof -
  from b0 obtain w where page: "gp pg (a AND NOT PAGE_OFFS_MASK) = Some w"
    by (auto simp add: guest_byte_def)
  have w0: "w (unat (a AND PAGE_OFFS_MASK)) = b"
    using b0 by (simp add: guest_byte_def page)
  show ?thesis
    using other x86_parse_mov_to_cr_reads [where gp = gp and pg = pg and w = w and m = m
        and a = a and pc = pc and reg = reg, OF pg a page] w0
    by (simp add: Let_def)
qed

lemma x86_parse_mov_to_cr_unmapped:
  assumes a: "a = (if efer (the_vmcb m) AND EFER_LMA \<noteq> 0 then 0 else base (cs (the_vmcb m))) + pc"
    and un: "vcpu_get_guest_paging_structs m = None
             \<or> (\<exists>pg. vcpu_get_guest_paging_structs m = Some pg \<and> guest_byte gp pg a = None)"
  shows "x86_parse_mov_to_cr gp m pc reg = None"
  using un
  by (auto simp add: x86_parse_mov_to_cr_def a guest_byte_def ctx_advance_def
      vcpu_map_inst_def Let_def)


section \<open>Write to control register 0: the source register\<close>

lemma low_gpr_number:
  assumes "unat ((e::u64) AND 0xf) < 8"
  shows "e AND 0x07 = e AND 0xf"
proof -
  have "e AND 0xf < 2 ^ 3"
    using assms by (simp add: word_less_nat_alt)
  then have "(e AND 0xf) AND mask 3 = e AND 0xf"
    by (rule less_mask_eq)
  moreover have "(e AND 0xf) AND mask 3 = e AND 0x07"
    by (simp add: mask_eq_exp_minus_1 and.assoc)
  ultimately show ?thesis by simp
qed

lemma decode_with_assists:
  assumes "has_assists m" and "bit (exitinfo1 (the_vmcb m)) 63"
    and "unat (exitinfo1 (the_vmcb m) AND 0xf) < 8"
  shows "svm_cr_decode ext m = Some (exitinfo1 (the_vmcb m) AND 0xf)"
proof -
  have eq: "push_bit 63 (1 :: u64) = 2 ^ 63"
    by (simp add: push_bit_of_1)
  have "exitinfo1 (the_vmcb m) AND push_bit 63 1 \<noteq> 0"
    unfolding eq test_bit_mask by (rule assms(2))
  then show ?thesis
    using assms(1) low_gpr_number [OF assms(3)] by (simp add: svm_cr_decode_def)
qed

lemma decode_parsed:
  assumes na: "\<not> has_assists m"
    and src: "mov_cr0_source ext m = Some n"
    and fit: "unat (guest_inst_addr m AND PAGE_OFFS_MASK) + 2 < 4096"
  shows "\<exists>reg. svm_cr_decode ext m = Some reg \<and> unat reg = n"
proof -
  from src na obtain pg where pg: "vcpu_get_guest_paging_structs m = Some pg"
    by (auto simp add: mov_cr0_source_def split: option.splits)
  let ?a = "guest_inst_addr m"
  from src na pg have b0: "guest_byte (guest_page ext) pg ?a = Some 0x0f"
    and b1: "guest_byte (guest_page ext) pg (?a + 1) = Some 0x22"
    by (auto simp add: mov_cr0_source_def Let_def split: option.splits if_splits)
  from src na pg b0 b1 obtain modrm where
    b2: "guest_byte (guest_page ext) pg (?a + 2) = Some modrm"
    and cr: "drop_bit 3 (modrm AND 0x38) = 0" and n: "n = unat (modrm AND 0x7)"
    by (auto simp add: mov_cr0_source_def Let_def split: option.splits if_splits)
  have a: "?a = (if efer (the_vmcb m) AND EFER_LMA \<noteq> 0 then 0 else base (cs (the_vmcb m)))
                  + rip (the_vmcb m)"
    by (simp add: guest_inst_addr_def)
  have "x86_parse_mov_to_cr (guest_page ext) m (rip (the_vmcb m)) 0
          = Some (ucast (modrm AND 0x7))"
    using x86_parse_mov_to_cr_within_page [where gp = "guest_page ext" and pg = pg and m = m
        and a = ?a and pc = "rip (the_vmcb m)" and reg = 0 and modrm = modrm, OF pg a fit b0 b1 b2]
      cr by simp
  then have "svm_cr_decode ext m = Some (ucast (modrm AND 0x7))"
    using na by (simp add: svm_cr_decode_def)
  moreover have "unat (ucast (modrm AND 0x7) :: u64) = n"
  proof -
    have u: "uint (ucast (modrm AND 0x7) :: u64) = uint (modrm AND 0x7)"
      by (rule uint_up_ucast) (simp add: is_up)
    show ?thesis
      by (simp only: n unat_eq_nat_uint u)
  qed
  ultimately show ?thesis by blast
qed

lemma source_value:
  assumes "unat (reg::u64) = n" and "n < 8"
  shows "(if reg = 4 then rsp (the_vmcb m)
          else regs_as_array (guest_regs m) ! (15 - unat reg)) = gpr_value m n"
proof -
  have "(reg = 4) = (unat reg = unat (4 :: u64))"
    by (rule word_unat_eq_iff)
  then have four: "(reg = 4) = (n = 4)"
    using assms(1) by simp
  consider "n = 0" | "n = 1" | "n = 2" | "n = 3" | "n = 4" | "n = 5" | "n = 6" | "n = 7"
    using assms(2) by linarith
  then show ?thesis
    by cases (simp_all add: four assms(1) gpr_value_def regs_as_array_def Let_def)
qed

text \<open>
  With decode assists the emulator keeps bits 2:0 of the register number that the
  processor reports in bits 3:0 of EXITINFO1: when the guest names one of \<open>r8\<close> to
  \<open>r15\<close>, bit 3 is dropped and the emulator works with the value of the register eight
  numbers below.
\<close>

lemma svm_cr_decode_drops_bit_3:
  assumes "has_assists m" and "bit (exitinfo1 (the_vmcb m)) 63"
  shows "svm_cr_decode ext m = Some ((exitinfo1 (the_vmcb m) AND 0xf) AND 0x07)"
proof -
  have eq: "push_bit 63 (1 :: u64) = 2 ^ 63"
    by (simp add: push_bit_of_1)
  have "exitinfo1 (the_vmcb m) AND push_bit 63 1 \<noteq> 0"
    unfolding eq test_bit_mask by (rule assms(2))
  then show ?thesis
    using assms(1) by (simp add: svm_cr_decode_def and.assoc)
qed

lemma cr0_ne_values:
  "the_vmcb cr0_ne_machine = zero_vmcb\<lparr>exitcode := 0x65, exitinfo1 := 0x8000000000000000,
                       cr0 := 0x80000011, cr4 := 0x20, efer := 0x1100\<rparr>"
  "guest_regs cr0_ne_machine = zero_registers\<lparr>rax := 0x80000031\<rparr>"
  "has_assists cr0_ne_machine"
  "\<not> has_flush_by_asid cr0_ne_machine"
  by (simp_all add: cr0_ne_machine_def fresh_machine_def upd_vmcb_def the_vmcb_def)

lemma cr0_ne_source:
  "mov_cr0_source idle_collaborators cr0_ne_machine = Some 0"
  "gpr_value cr0_ne_machine 0 = 0x80000031"
proof -
  have b: "bit (0x8000000000000000 :: u64) 63"
    by (simp add: bit_iff_odd)
  show "mov_cr0_source idle_collaborators cr0_ne_machine = Some 0"
    by (simp add: mov_cr0_source_def cr0_ne_values b)
  show "gpr_value cr0_ne_machine 0 = 0x80000031"
    by (simp add: gpr_value_def cr0_ne_values)
qed

lemma cr0_parsed_values:
  "the_vmcb cr0_parsed_machine = zero_vmcb\<lparr>exitcode := 0x65, cr0 := 0x10, cr4 := 0x20,
                       efer := 0x1100, rip := 0x1010\<rparr>"
  "guest_regs cr0_parsed_machine = zero_registers\<lparr>rbx := 0x80000011\<rparr>"
  "has_assists cr0_parsed_machine = False"
  "\<not> has_flush_by_asid cr0_parsed_machine"
  "guest_page inline_collaborators = inline_pages"
  by (simp_all add: cr0_parsed_machine_def fresh_machine_def upd_vmcb_def the_vmcb_def
      inline_collaborators_def idle_collaborators_def)

lemma cr0_parsed_source:
  "guest_inst_addr cr0_parsed_machine = 0x1010"
  "mov_cr0_source inline_collaborators cr0_parsed_machine = Some 3"
  "gpr_value cr0_parsed_machine 3 = 0x80000011"
proof -
  show a: "guest_inst_addr cr0_parsed_machine = 0x1010"
    by (simp add: guest_inst_addr_def cr0_parsed_values zero_vmcb_def zero_segment_def
        EFER_LMA_def)
  have pg: "vcpu_get_guest_paging_structs cr0_parsed_machine
     = Some \<lparr>root_paging = realmode_paging, root_table_gphys = 0xff000\<rparr>"
    by (simp add: vcpu_get_guest_paging_structs_def cr0_parsed_values zero_vmcb_def Let_def
        EFER_LMA_def X86_CR0_PG_def)
  have p: "(0x1010 :: u64) AND NOT PAGE_OFFS_MASK = 0x1000"
    "(0x1010 :: u64) AND PAGE_OFFS_MASK = 0x10"
    "(0x1011 :: u64) AND NOT PAGE_OFFS_MASK = 0x1000"
    "(0x1011 :: u64) AND PAGE_OFFS_MASK = 0x11"
    "(0x1012 :: u64) AND NOT PAGE_OFFS_MASK = 0x1000"
    "(0x1012 :: u64) AND PAGE_OFFS_MASK = 0x12"
    by (simp_all add: PAGE_OFFS_MASK_def)
  show "mov_cr0_source inline_collaborators cr0_parsed_machine = Some 3"
    by (simp add: mov_cr0_source_def cr0_parsed_values pg a Let_def guest_byte_def p
        inline_pages_def)
  show "gpr_value cr0_parsed_machine 3 = 0x80000011"
    by (simp add: gpr_value_def cr0_parsed_values)
qed

text \<open>
  Against C3 as stated: the guest sets the numeric-error bit of CR0, so none of PG, WP,
  CD, NW differs between the new value and CR0, and the flush request is written all the
  same, because the new value has PG set and the re-evaluation of the long-mode-active
  bit in \<open>update_efer\<close> sets that bit and flushes.
\<close>

theorem svm_handle_cr_flush_counterexample:
  "mov_cr0_source idle_collaborators cr0_ne_machine = Some 0
   \<and> gpr_value cr0_ne_machine 0 = 0x80000031
   \<and> cr0 (the_vmcb cr0_ne_machine) = 0x80000011
   \<and> (gpr_value cr0_ne_machine 0 XOR cr0 (the_vmcb cr0_ne_machine))
        AND (X86_CR0_PG OR X86_CR0_WP OR X86_CR0_CD OR X86_CR0_NW) = 0
   \<and> fst (svm_handle_cr idle_collaborators cr0_ne_machine)
   \<and> tlb_control (the_vmcb cr0_ne_machine) = 0
   \<and> tlb_control (the_vmcb (snd (svm_handle_cr idle_collaborators cr0_ne_machine))) = 1"
proof -
  have d: "svm_cr_decode idle_collaborators cr0_ne_machine = Some 0"
    by (simp add: svm_cr_decode_def cr0_ne_values)
  have h: "fst (svm_handle_cr idle_collaborators cr0_ne_machine)
   \<and> tlb_control (the_vmcb (snd (svm_handle_cr idle_collaborators cr0_ne_machine))) = 1"
    by (simp add: d svm_handle_cr_def Let_def cr0_ne_values
      regs_as_array_def zero_registers_def zero_vmcb_def the_vmcb_skip the_vmcb_tlb_flush
      the_vmcb_update_efer tlb_flush_request_def SVM_TLB_FLUSH_ALL_def
      X86_CR0_PG_def X86_CR0_WP_def X86_CR0_CD_def X86_CR0_NW_def)
  show ?thesis
    using h
    by (simp add: cr0_ne_source cr0_ne_values zero_vmcb_def
      X86_CR0_PG_def X86_CR0_WP_def X86_CR0_CD_def X86_CR0_NW_def)
qed

text \<open>
  C3, as the code has it, where the emulator works with the register that the guest
  named. \<open>n\<close> is the number of the source register of the intercepted move to CR0 and
  \<open>val\<close> the value of that register. For every write from one of the registers 0 to 7,
  \<open>rax\<close> to \<open>rdi\<close>, whose three bytes lie in one page when the emulator has to read
  them from the guest's memory: the write is handled; the flush request is written to
  the control block if and only if one of the bits PG (31), WP (16), CD (30), NW (29)
  differs between \<open>val\<close> and the current CR0, or \<open>val\<close> has PG set while EFER has
  long-mode enable (bit 8) set and long-mode active (bit 10) clear, and otherwise the
  flush field keeps its value; the value stored in CR0 is \<open>val\<close> with NW cleared; when
  PG is set in \<open>val\<close> the long-mode-active bit is re-evaluated, that is, set when
  long-mode enable is set and it was clear; the instruction pointer moves on by three
  bytes and the clean bit of the control registers is cleared. The statement says nothing
  of a write from \<open>r8\<close> to \<open>r15\<close>.
\<close>

theorem svm_handle_cr_write:
  assumes src: "mov_cr0_source ext m = Some n"
    and low: "n < 8"
    and page: "has_assists m \<or> unat (guest_inst_addr m AND PAGE_OFFS_MASK) + 2 < 4096"
  shows "let val = gpr_value m n;
             old = the_vmcb m;
             r = svm_handle_cr ext m;
             new = the_vmcb (snd r);
             lma_set = (bit val 31 \<and> bit (efer old) 8 \<and> \<not> bit (efer old) 10)
         in fst r
          \<and> cr0 new = val AND NOT X86_CR0_NW
          \<and> \<not> bit (cr0 new) 29
          \<and> tlb_control new =
              (if bit val 31 \<noteq> bit (cr0 old) 31 \<or> bit val 16 \<noteq> bit (cr0 old) 16
                  \<or> bit val 30 \<noteq> bit (cr0 old) 30 \<or> bit val 29 \<noteq> bit (cr0 old) 29
                  \<or> lma_set
               then tlb_flush_request m else tlb_control old)
          \<and> efer new = (if lma_set then efer old OR EFER_LMA else efer old)
          \<and> rip new = rip old + 3
          \<and> clean_bits new = clean_bits old AND NOT CLEAN_BITS_CRX"
proof -
  have "\<exists>reg. svm_cr_decode ext m = Some reg \<and> unat reg = n"
  proof (cases "has_assists m")
    case True
    with src have b: "bit (exitinfo1 (the_vmcb m)) 63"
      and n: "n = unat (exitinfo1 (the_vmcb m) AND 0xf)"
      by (auto simp add: mov_cr0_source_def split: if_splits)
    from low n have "unat (exitinfo1 (the_vmcb m) AND 0xf) < 8" by simp
    from decode_with_assists [OF True b this] n show ?thesis by simp
  next
    case False
    with page have "unat (guest_inst_addr m AND PAGE_OFFS_MASK) + 2 < 4096" by simp
    from decode_parsed [OF False src this] show ?thesis .
  qed
  then obtain reg where dec: "svm_cr_decode ext m = Some reg" and ur: "unat reg = n"
    by blast
  from svm_handle_cr_result [OF dec] show ?thesis
    unfolding source_value [OF ur low] .
qed


theorem svm_handle_cr_write_witness:
  "mov_cr0_source idle_collaborators cr0_ne_machine = Some 0
   \<and> (0 :: nat) < 8
   \<and> has_assists cr0_ne_machine
   \<and> gpr_value cr0_ne_machine 0 = 0x80000031
   \<and> fst (svm_handle_cr idle_collaborators cr0_ne_machine)
   \<and> cr0 (the_vmcb (snd (svm_handle_cr idle_collaborators cr0_ne_machine))) = 0x80000031
   \<and> efer (the_vmcb (snd (svm_handle_cr idle_collaborators cr0_ne_machine))) = 0x1500
   \<and> rip (the_vmcb (snd (svm_handle_cr idle_collaborators cr0_ne_machine))) = 3
   \<and> tlb_control (the_vmcb (snd (svm_handle_cr idle_collaborators cr0_ne_machine)))
        = SVM_TLB_FLUSH_ALL
   \<and> mov_cr0_source inline_collaborators cr0_parsed_machine = Some 3
   \<and> (3 :: nat) < 8
   \<and> unat (guest_inst_addr cr0_parsed_machine AND PAGE_OFFS_MASK) + 2 < 4096
   \<and> gpr_value cr0_parsed_machine 3 = 0x80000011
   \<and> fst (svm_handle_cr inline_collaborators cr0_parsed_machine)
   \<and> cr0 (the_vmcb (snd (svm_handle_cr inline_collaborators cr0_parsed_machine))) = 0x80000011
   \<and> efer (the_vmcb (snd (svm_handle_cr inline_collaborators cr0_parsed_machine))) = 0x1500
   \<and> rip (the_vmcb (snd (svm_handle_cr inline_collaborators cr0_parsed_machine))) = 0x1013
   \<and> tlb_control (the_vmcb (snd (svm_handle_cr inline_collaborators cr0_parsed_machine)))
        = SVM_TLB_FLUSH_ALL"
proof -
  have p1: "has_assists cr0_ne_machine
      \<or> unat (guest_inst_addr cr0_ne_machine AND PAGE_OFFS_MASK) + 2 < 4096"
    by (simp add: cr0_ne_values)
  have fit: "unat (guest_inst_addr cr0_parsed_machine AND PAGE_OFFS_MASK) + 2 < 4096"
    by (simp add: cr0_parsed_source PAGE_OFFS_MASK_def)
  then have p2: "has_assists cr0_parsed_machine
      \<or> unat (guest_inst_addr cr0_parsed_machine AND PAGE_OFFS_MASK) + 2 < 4096"
    by simp
  have a: "fst (svm_handle_cr idle_collaborators cr0_ne_machine)
   \<and> cr0 (the_vmcb (snd (svm_handle_cr idle_collaborators cr0_ne_machine))) = 0x80000031
   \<and> efer (the_vmcb (snd (svm_handle_cr idle_collaborators cr0_ne_machine))) = 0x1500
   \<and> rip (the_vmcb (snd (svm_handle_cr idle_collaborators cr0_ne_machine))) = 3
   \<and> tlb_control (the_vmcb (snd (svm_handle_cr idle_collaborators cr0_ne_machine)))
        = SVM_TLB_FLUSH_ALL"
    using svm_handle_cr_write [OF cr0_ne_source(1) _ p1]
    by (simp add: Let_def cr0_ne_source(2) cr0_ne_values zero_vmcb_def
        tlb_flush_request_def X86_CR0_NW_def EFER_LMA_def)
  have b: "fst (svm_handle_cr inline_collaborators cr0_parsed_machine)
   \<and> cr0 (the_vmcb (snd (svm_handle_cr inline_collaborators cr0_parsed_machine))) = 0x80000011
   \<and> efer (the_vmcb (snd (svm_handle_cr inline_collaborators cr0_parsed_machine))) = 0x1500
   \<and> rip (the_vmcb (snd (svm_handle_cr inline_collaborators cr0_parsed_machine))) = 0x1013
   \<and> tlb_control (the_vmcb (snd (svm_handle_cr inline_collaborators cr0_parsed_machine)))
        = SVM_TLB_FLUSH_ALL"
    using svm_handle_cr_write [OF cr0_parsed_source(2) _ p2]
    by (simp add: Let_def cr0_parsed_source(3) cr0_parsed_values zero_vmcb_def
        tlb_flush_request_def X86_CR0_NW_def EFER_LMA_def)
  show ?thesis
    using a b fit by (simp add: cr0_ne_source cr0_parsed_source(2,3) cr0_ne_values(3))
qed


end
